theory Spec2Isabelle
  imports Complex_Main "HOL-Library.Sublist"
begin

section \<open>The airdrop handler of web3/api/airdrop.js\<close>

text \<open>
  The repository is one asynchronous request handler. It validates the request,
  reads four values of \<open>process.env\<close>, parses the sender's secret key, asks the
  chain for the sender's balance and for the recipient's token account, assembles
  a transaction of one or two instructions, submits it and turns the outcome into
  an HTTP response. Everything it calls (\<open>@solana/web3.js\<close>, \<open>@solana/spl-token\<close>,
  \<open>bs58\<close>, \<open>JSON.parse\<close>, typed arrays) is outside the repository.

  The embedding follows the file line by line. The collaborators are the fields of
  a record \<open>world\<close>: each is a function from the call's arguments to either the
  value it returns or the value it throws. Every call, every read of
  \<open>process.env\<close> and every console line is written to an event list, in the order
  of the source, so that "no call happened" and "this was logged" are statements
  about that list. \<open>return res.status(..).json(..)\<close> and \<open>throw\<close> are the two
  abrupt completions of a block.
\<close>

subsection \<open>JavaScript values\<close>

text \<open>
  A number is \<open>NaN\<close> or an exact rational. Rounding to 53 bits, the infinities and
  the sign of zero are outside the model: every statement below about an amount is
  a statement about the exact value.
\<close>

datatype jsnum = NaN | Num rat

datatype jsval =
    JUndefined
  | JNull
  | JBool bool
  | JNum jsnum
  | JStr string
  | JArr "jsval list"
  | JObj "(string \<times> jsval) list"

text \<open>
  A thrown value, as far as the handler looks at it: line 138 reads
  \<open>error.message\<close> and calls \<open>includes\<close> on it. \<open>ErrorMsg m\<close> is a value whose
  \<open>message\<close> is the string \<open>m\<close> (every \<open>Error\<close> object); \<open>NoMsg\<close> is any other
  thrown value (\<open>undefined\<close>, \<open>null\<close>, a primitive, an object without a string
  \<open>message\<close>).
\<close>

datatype exn = ErrorMsg string | NoMsg

text \<open>\<open>!v\<close> is \<open>\<not> truthy v\<close>.\<close>

fun truthy :: "jsval \<Rightarrow> bool" where
  "truthy JUndefined = False"
| "truthy JNull = False"
| "truthy (JBool b) = b"
| "truthy (JNum NaN) = False"
| "truthy (JNum (Num r)) = (r \<noteq> 0)"
| "truthy (JStr s) = (s \<noteq> [])"
| "truthy (JArr xs) = True"
| "truthy (JObj kvs) = True"

text \<open>
  \<open>const { walletAddress } = req.body\<close> (line 11): destructuring \<open>undefined\<close> or
  \<open>null\<close> throws a TypeError (the message is V8's); an object gives the property or
  \<open>undefined\<close>; any other value has no such property.
\<close>

definition destructure_TypeError :: "string \<Rightarrow> exn" where
  "destructure_TypeError v =
     ErrorMsg (''Cannot destructure property 'walletAddress' of 'req.body' as it is '' @ v @ ''.'')"

fun getWalletAddress :: "jsval \<Rightarrow> exn + jsval" where
  "getWalletAddress JUndefined = Inl (destructure_TypeError ''undefined'')"
| "getWalletAddress JNull = Inl (destructure_TypeError ''null'')"
| "getWalletAddress (JObj kvs) =
     (case map_of kvs ''walletAddress'' of None \<Rightarrow> Inr JUndefined | Some v \<Rightarrow> Inr v)"
| "getWalletAddress v = Inr JUndefined"

text \<open>\<open>s.includes(pat)\<close> and \<open>s.startsWith(pat)\<close> on strings.\<close>

fun str_includes :: "string \<Rightarrow> string \<Rightarrow> bool" where
  "str_includes [] pat = (pat = [])"
| "str_includes (c # cs) pat = (prefix pat (c # cs) \<or> str_includes cs pat)"

definition startsWith :: "string \<Rightarrow> string \<Rightarrow> bool" where
  "startsWith s pat = prefix pat s"

text \<open>
  \<open>parseInt(s)\<close> with no radix (ECMAScript, parseInt): skip leading white space,
  take an optional sign, take \<open>0x\<close> or \<open>0X\<close> as the mark of radix 16, read the longest
  run of digits of the radix, and give \<open>NaN\<close> when that run is empty. Characters
  are 8-bit here, so the white space is the ASCII white space and U+00A0.
\<close>

definition isWhiteSpace :: "char \<Rightarrow> bool" where
  "isWhiteSpace c =
     (let n = (of_char c :: nat) in (9 \<le> n \<and> n \<le> 13) \<or> n = 32 \<or> n = 160)"

definition digitValue :: "char \<Rightarrow> nat option" where
  "digitValue c =
     (let n = (of_char c :: nat) in
      if 48 \<le> n \<and> n \<le> 57 then Some (n - 48)
      else if 97 \<le> n \<and> n \<le> 122 then Some (n - 87)
      else if 65 \<le> n \<and> n \<le> 90 then Some (n - 55)
      else None)"

definition isRadixDigit :: "nat \<Rightarrow> char \<Rightarrow> bool" where
  "isRadixDigit R c = (case digitValue c of None \<Rightarrow> False | Some d \<Rightarrow> d < R)"

definition digitsValue :: "nat \<Rightarrow> string \<Rightarrow> nat" where
  "digitsValue R Z =
     foldl (\<lambda>a c. a * R + (case digitValue c of None \<Rightarrow> 0 | Some d \<Rightarrow> d)) 0 Z"

definition parseInt :: "string \<Rightarrow> jsnum" where
  "parseInt s =
     (let S = dropWhile isWhiteSpace s;
          sign = (if startsWith S ''-'' then - 1 else (1 :: int));
          S1 = (if startsWith S ''+'' \<or> startsWith S ''-'' then tl S else S);
          hex = (startsWith S1 ''0x'' \<or> startsWith S1 ''0X'');
          R = (if hex then 16 else 10);
          S2 = (if hex then drop 2 S1 else S1);
          Z = takeWhile (isRadixDigit R) S2
      in if Z = [] then NaN else Num (of_int (sign * int (digitsValue R Z))))"

text \<open>\<open>a * b\<close> and \<open>a < b\<close> on numbers: \<open>NaN\<close> absorbs a product and fails every comparison.\<close>

fun js_mul :: "jsnum \<Rightarrow> jsnum \<Rightarrow> jsnum" where
  "js_mul (Num a) (Num b) = Num (a * b)"
| "js_mul a b = NaN"

fun js_lt :: "jsnum \<Rightarrow> jsnum \<Rightarrow> bool" where
  "js_lt (Num a) (Num b) = (a < b)"
| "js_lt a b = False"

text \<open>\<open>Math.pow(10, 9)\<close>.\<close>

definition Math_pow_10_9 :: jsnum where
  "Math_pow_10_9 = Num (10 ^ 9)"

subsection \<open>The values of the chain library\<close>

datatype pubkey = PublicKey string

datatype keypair = Keypair (publicKey: pubkey) (secretKey: "nat list")

datatype connection = Connection string string

text \<open>
  The value of \<open>getTokenAccountBalance\<close>: \<open>amount\<close> is the balance in base units
  (the RPC sends it as a decimal string), \<open>uiAmount\<close> is the balance divided by
  \<open>10 ^ decimals\<close>, or \<open>null\<close> (\<open>None\<close>).
\<close>

record token_amount =
  amount :: nat
  decimals :: nat
  uiAmount :: "jsnum option"

datatype account_info = AccountInfo nat pubkey

datatype instruction = Instruction string "pubkey list" "nat list"

record transaction =
  instructions :: "instruction list"
  recentBlockhash :: "string option"
  feePayer :: "pubkey option"

subsection \<open>The collaborators\<close>

text \<open>
  One field per function the handler calls, named as in the source. \<open>bs58decode\<close>
  stands for \<open>await import('bs58')\<close> followed by \<open>bs58.default.decode\<close>, and
  \<open>createAssociatedTokenAccountInstruction\<close> for the dynamic import of line 93
  followed by the call. \<open>Inl\<close> is the thrown value (or the rejection of the
  promise), \<open>Inr\<close> the result. No function is called twice on the same arguments
  with a result that may differ: the two network queries and the submission are
  called once each, the other calls are pure in the libraries.
\<close>

record world =
  newPublicKey :: "jsval \<Rightarrow> exn + pubkey"
  jsonParse :: "string \<Rightarrow> exn + jsval"
  bs58decode :: "string \<Rightarrow> exn + nat list"
  newUint8Array :: "jsval \<Rightarrow> exn + nat list"
  fromSecretKey :: "nat list \<Rightarrow> exn + keypair"
  newConnection :: "string \<Rightarrow> string \<Rightarrow> exn + connection"
  getAssociatedTokenAddress :: "pubkey \<Rightarrow> pubkey \<Rightarrow> exn + pubkey"
  getTokenAccountBalance :: "connection \<Rightarrow> pubkey \<Rightarrow> exn + token_amount"
  getAccountInfo :: "connection \<Rightarrow> pubkey \<Rightarrow> exn + account_info option"
  createAssociatedTokenAccountInstruction ::
    "pubkey \<Rightarrow> pubkey \<Rightarrow> pubkey \<Rightarrow> pubkey \<Rightarrow> exn + instruction"
  createTransferInstruction :: "pubkey \<Rightarrow> pubkey \<Rightarrow> pubkey \<Rightarrow> jsnum \<Rightarrow> exn + instruction"
  getLatestBlockhash :: "connection \<Rightarrow> exn + string"
  sendAndConfirmTransaction ::
    "connection \<Rightarrow> transaction \<Rightarrow> keypair list \<Rightarrow> string \<Rightarrow> exn + string"

text \<open>\<open>process.env\<close>: each of the four variables is a string or \<open>undefined\<close>.\<close>

record env =
  SENDER_PRIVATE_KEY :: "string option"
  TOKEN_MINT_ADDRESS :: "string option"
  RPC_URL :: "string option"
  TOKEN_AMOUNT :: "string option"

record request =
  reqMethod :: string
  reqBody :: jsval

subsection \<open>Responses and events\<close>

text \<open>
  A template literal with an interpolated number is kept in pieces, the number
  unformatted.
\<close>

datatype piece = Lit string | Interp jsnum

datatype json =
    ErrorBody string
  | SuccessBody string jsnum "piece list"

datatype response = Response nat json

datatype call =
    NewPublicKey jsval
  | JsonParse string
  | Bs58Decode string
  | NewUint8Array jsval
  | FromSecretKey "nat list"
  | NewConnection string string
  | GetAssociatedTokenAddress pubkey pubkey
  | GetTokenAccountBalance connection pubkey
  | GetAccountInfo connection pubkey
  | CreateAssociatedTokenAccountInstruction pubkey pubkey pubkey pubkey
  | CreateTransferInstruction pubkey pubkey pubkey jsnum
  | GetLatestBlockhash connection
  | SendAndConfirmTransaction connection transaction "keypair list" string

datatype logarg = LStr string | LErr exn

datatype event =
    ReadEnv string
  | Call call
  | ConsoleError "logarg list"
  | ConsoleLog "logarg list"

text \<open>
  How a block completes: normally with a value, by \<open>return res.status(..).json(..)\<close>,
  or by a throw. A computation is the events it caused and its completion.
\<close>

datatype 'a completion = Normal 'a | Returned response | Threw exn

type_synonym 'a comp = "event list \<times> 'a completion"

definition andThen :: "'a comp \<Rightarrow> ('a \<Rightarrow> 'b comp) \<Rightarrow> 'b comp" where
  "andThen m f =
     (case m of
        (evs, Normal x) \<Rightarrow> (case f x of (evs', c) \<Rightarrow> (evs @ evs', c))
      | (evs, Returned r) \<Rightarrow> (evs, Returned r)
      | (evs, Threw e) \<Rightarrow> (evs, Threw e))"

definition tryCatch :: "'a comp \<Rightarrow> (exn \<Rightarrow> 'a comp) \<Rightarrow> 'a comp" where
  "tryCatch m h =
     (case m of
        (evs, Threw e) \<Rightarrow> (case h e of (evs', c) \<Rightarrow> (evs @ evs', c))
      | (evs, Normal x) \<Rightarrow> (evs, Normal x)
      | (evs, Returned r) \<Rightarrow> (evs, Returned r))"

definition perform :: "call \<Rightarrow> exn + 'a \<Rightarrow> 'a comp" where
  "perform c r = ([Call c], case r of Inl e \<Rightarrow> Threw e | Inr v \<Rightarrow> Normal v)"

definition result :: "'a \<Rightarrow> 'a comp" where
  "result x = ([], Normal x)"

definition respond :: "nat \<Rightarrow> json \<Rightarrow> 'a comp" where
  "respond st b = ([], Returned (Response st b))"

definition emit :: "event list \<Rightarrow> unit comp" where
  "emit evs = (evs, Normal ())"

subsection \<open>The handler, block by block\<close>

text \<open>Lines 11 to 24: the wallet address is read, required, and parsed.\<close>

definition validateRequest :: "world \<Rightarrow> request \<Rightarrow> pubkey comp" where
  "validateRequest w req =
     andThen ([], case getWalletAddress (reqBody req) of Inl e \<Rightarrow> Threw e | Inr v \<Rightarrow> Normal v)
       (\<lambda>walletAddress.
          if \<not> truthy walletAddress then respond 400 (ErrorBody ''Wallet address is required'')
          else tryCatch (perform (NewPublicKey walletAddress) (newPublicKey w walletAddress))
                 (\<lambda>error. respond 400 (ErrorBody ''Invalid wallet address format'')))"

text \<open>
  Lines 27 to 36. \<open>x || d\<close> on a string or \<open>undefined\<close> is \<open>orDefault x d\<close>, and \<open>!x\<close>
  is \<open>absent x\<close>: the empty string counts as \<open>undefined\<close> does. Past the check
  of line 33 the three variables are strings that are not empty, and
  \<open>orDefault x []\<close> is the string that \<open>x\<close> holds.
\<close>

definition orDefault :: "string option \<Rightarrow> string \<Rightarrow> string" where
  "orDefault x d = (case x of None \<Rightarrow> d | Some s \<Rightarrow> if s = [] then d else s)"

definition absent :: "string option \<Rightarrow> bool" where
  "absent x = (case x of None \<Rightarrow> True | Some s \<Rightarrow> s = [])"

definition configuredAmount :: "env \<Rightarrow> jsnum" where
  "configuredAmount e = parseInt (orDefault (TOKEN_AMOUNT e) ''25000'')"

record config =
  senderPrivateKey :: string
  tokenMintAddress :: string
  rpcUrl :: string
  tokenAmount :: jsnum

definition loadConfig :: "env \<Rightarrow> config comp" where
  "loadConfig e =
     andThen (emit [ReadEnv ''SENDER_PRIVATE_KEY'', ReadEnv ''TOKEN_MINT_ADDRESS'',
                    ReadEnv ''RPC_URL'', ReadEnv ''TOKEN_AMOUNT''])
       (\<lambda>_. if absent (SENDER_PRIVATE_KEY e) \<or> absent (TOKEN_MINT_ADDRESS e) \<or> absent (RPC_URL e)
            then andThen (emit [ConsoleError [LStr ''Missing environment variables'']])
                   (\<lambda>_. respond 500 (ErrorBody ''Server configuration error''))
            else result \<lparr> senderPrivateKey = orDefault (SENDER_PRIVATE_KEY e) [],
                          tokenMintAddress = orDefault (TOKEN_MINT_ADDRESS e) [],
                          rpcUrl = orDefault (RPC_URL e) [],
                          tokenAmount = configuredAmount e \<rparr>)"

text \<open>
  Lines 39 to 55. \<open>Array.from\<close> of the decoded bytes is the array of the same
  numbers. Whatever the block throws is logged and answered with a fixed body.
\<close>

definition arrayFrom :: "nat list \<Rightarrow> jsval" where
  "arrayFrom bytes = JArr (map (\<lambda>b. JNum (Num (of_nat b))) bytes)"

definition parseSenderKey :: "world \<Rightarrow> string \<Rightarrow> keypair comp" where
  "parseSenderKey w key =
     tryCatch
       (andThen
          (if startsWith key ''[''
           then perform (JsonParse key) (jsonParse w key)
           else andThen (perform (Bs58Decode key) (bs58decode w key))
                  (\<lambda>bytes. result (arrayFrom bytes)))
          (\<lambda>privateKeyArray.
             andThen (perform (NewUint8Array privateKeyArray) (newUint8Array w privateKeyArray))
               (\<lambda>secret. perform (FromSecretKey secret) (fromSecretKey w secret))))
       (\<lambda>error.
          andThen (emit [ConsoleError [LStr ''Error parsing private key:'', LErr error]])
            (\<lambda>_. respond 500 (ErrorBody ''Invalid sender private key format'')))"

text \<open>
  Line 77: \<open>senderBalance.value.uiAmount < tokenAmount\<close>; a \<open>null\<close> operand is the
  number 0.
\<close>

definition toNumber :: "jsnum option \<Rightarrow> jsnum" where
  "toNumber x = (case x of None \<Rightarrow> Num 0 | Some n \<Rightarrow> n)"

definition insufficient :: "token_amount \<Rightarrow> jsnum \<Rightarrow> bool" where
  "insufficient senderBalance amt = js_lt (toNumber (uiAmount senderBalance)) amt"

text \<open>
  Lines 82 to 87: a failed query is logged and leaves the variable \<open>undefined\<close>,
  which line 92 reads as \<open>null\<close> is read.
\<close>

definition queryRecipientAccount :: "world \<Rightarrow> connection \<Rightarrow> pubkey \<Rightarrow> account_info option comp" where
  "queryRecipientAccount w conn acct =
     tryCatch (perform (GetAccountInfo conn acct) (getAccountInfo w conn acct))
       (\<lambda>error.
          andThen (emit [ConsoleError [LStr ''Error checking recipient token account:'', LErr error]])
            (\<lambda>_. result None))"

text \<open>What lines 11 to 87 leave in scope for the assembly.\<close>

record scope =
  recipientPublicKey :: pubkey
  amountCfg :: jsnum
  senderKeypair :: keypair
  conn :: connection
  mintPublicKey :: pubkey
  senderTokenAccount :: pubkey
  recipientTokenAccount :: pubkey
  recipientTokenAccountInfo :: "account_info option"

text \<open>Lines 58 to 73: the connection, the mint and the two token accounts.\<close>

record accounts =
  connectionOf :: connection
  mintOf :: pubkey
  senderAccountOf :: pubkey
  recipientAccountOf :: pubkey

definition connect :: "world \<Rightarrow> config \<Rightarrow> keypair \<Rightarrow> pubkey \<Rightarrow> accounts comp" where
  "connect w cfg kp rpk =
     andThen (perform (NewConnection (rpcUrl cfg) ''confirmed'')
                (newConnection w (rpcUrl cfg) ''confirmed'')) (\<lambda>c.
     andThen (perform (NewPublicKey (JStr (tokenMintAddress cfg)))
                (newPublicKey w (JStr (tokenMintAddress cfg)))) (\<lambda>mint.
     andThen (perform (GetAssociatedTokenAddress mint (publicKey kp))
                (getAssociatedTokenAddress w mint (publicKey kp))) (\<lambda>sta.
     andThen (perform (GetAssociatedTokenAddress mint rpk)
                (getAssociatedTokenAddress w mint rpk)) (\<lambda>rta.
     result \<lparr> connectionOf = c, mintOf = mint, senderAccountOf = sta,
              recipientAccountOf = rta \<rparr>))))"

text \<open>Lines 76 to 79.\<close>

definition checkBalance :: "world \<Rightarrow> connection \<Rightarrow> pubkey \<Rightarrow> jsnum \<Rightarrow> unit comp" where
  "checkBalance w c sta amt =
     andThen (perform (GetTokenAccountBalance c sta) (getTokenAccountBalance w c sta))
       (\<lambda>senderBalance.
          if insufficient senderBalance amt
          then respond 400 (ErrorBody ''insufficient_token_balance'')
          else result ())"

text \<open>Lines 11 to 87 in sequence.\<close>

definition prepare :: "world \<Rightarrow> env \<Rightarrow> request \<Rightarrow> scope comp" where
  "prepare w e req =
     andThen (validateRequest w req) (\<lambda>rpk.
     andThen (loadConfig e) (\<lambda>cfg.
     andThen (parseSenderKey w (senderPrivateKey cfg)) (\<lambda>kp.
     andThen (connect w cfg kp rpk) (\<lambda>acc.
     andThen (checkBalance w (connectionOf acc) (senderAccountOf acc) (tokenAmount cfg)) (\<lambda>_.
     andThen (queryRecipientAccount w (connectionOf acc) (recipientAccountOf acc)) (\<lambda>info.
     result \<lparr> recipientPublicKey = rpk, amountCfg = tokenAmount cfg, senderKeypair = kp,
              conn = connectionOf acc, mintPublicKey = mintOf acc,
              senderTokenAccount = senderAccountOf acc,
              recipientTokenAccount = recipientAccountOf acc,
              recipientTokenAccountInfo = info \<rparr>))))))"

text \<open>Lines 89 to 110: \<open>new Transaction()\<close> and \<open>transaction.add\<close>.\<close>

definition newTransaction :: transaction where
  "newTransaction = \<lparr> instructions = [], recentBlockhash = None, feePayer = None \<rparr>"

definition add :: "transaction \<Rightarrow> instruction \<Rightarrow> transaction" where
  "add t i = t \<lparr> instructions := instructions t @ [i] \<rparr>"

definition assemble :: "world \<Rightarrow> scope \<Rightarrow> transaction comp" where
  "assemble w ctx =
     andThen
       (if recipientTokenAccountInfo ctx = None
        then andThen
               (perform
                  (CreateAssociatedTokenAccountInstruction (publicKey (senderKeypair ctx))
                     (recipientTokenAccount ctx) (recipientPublicKey ctx) (mintPublicKey ctx))
                  (createAssociatedTokenAccountInstruction w (publicKey (senderKeypair ctx))
                     (recipientTokenAccount ctx) (recipientPublicKey ctx) (mintPublicKey ctx)))
               (\<lambda>createATAInstruction. result (add newTransaction createATAInstruction))
        else result newTransaction)
       (\<lambda>t.
          andThen
            (perform
               (CreateTransferInstruction (senderTokenAccount ctx) (recipientTokenAccount ctx)
                  (publicKey (senderKeypair ctx)) (js_mul (amountCfg ctx) Math_pow_10_9))
               (createTransferInstruction w (senderTokenAccount ctx) (recipientTokenAccount ctx)
                  (publicKey (senderKeypair ctx)) (js_mul (amountCfg ctx) Math_pow_10_9)))
            (\<lambda>transferInstruction. result (add t transferInstruction)))"

text \<open>Lines 113 to 132.\<close>

definition submit :: "world \<Rightarrow> scope \<Rightarrow> transaction \<Rightarrow> unit comp" where
  "submit w ctx t =
     andThen (perform (GetLatestBlockhash (conn ctx)) (getLatestBlockhash w (conn ctx)))
       (\<lambda>blockhash.
          andThen
            (perform
               (SendAndConfirmTransaction (conn ctx)
                  (t \<lparr> recentBlockhash := Some blockhash,
                       feePayer := Some (publicKey (senderKeypair ctx)) \<rparr>)
                  [senderKeypair ctx] ''confirmed'')
               (sendAndConfirmTransaction w (conn ctx)
                  (t \<lparr> recentBlockhash := Some blockhash,
                       feePayer := Some (publicKey (senderKeypair ctx)) \<rparr>)
                  [senderKeypair ctx] ''confirmed''))
            (\<lambda>signature.
               andThen (emit [ConsoleLog [LStr (''Airdrop successful: '' @ signature)]])
                 (\<lambda>_. respond 200
                        (SuccessBody signature (amountCfg ctx)
                           [Lit ''Successfully airdropped '', Interp (amountCfg ctx),
                            Lit '' DUCK tokens'']))))"

text \<open>The body of the outer \<open>try\<close>, lines 11 to 132.\<close>

definition tryBody :: "world \<Rightarrow> env \<Rightarrow> request \<Rightarrow> unit comp" where
  "tryBody w e req =
     andThen (prepare w e req) (\<lambda>ctx. andThen (assemble w ctx) (\<lambda>t. submit w ctx t))"

text \<open>
  What the caller of the handler sees: a response, or no response because the
  handler's promise rejected (the \<open>catch\<close> block itself threw), or because the body
  ended without one (no path does).
\<close>

datatype final = Responded response | Rejected | NoResponse

record outcome =
  final :: final
  events :: "event list"

text \<open>
  Lines 134 to 145. \<open>error.message.includes\<close> is a TypeError when the thrown value
  has no string \<open>message\<close>; \<open>error.message || ..\<close> replaces the empty message.
\<close>

definition topLevelCatch :: "exn \<Rightarrow> final" where
  "topLevelCatch error =
     (case error of
        NoMsg \<Rightarrow> Rejected
      | ErrorMsg m \<Rightarrow>
          if str_includes m ''already in use''
          then Responded (Response 400 (ErrorBody ''already_claimed_or_has_balance''))
          else Responded (Response 500
                 (ErrorBody (if m = [] then ''Internal server error during airdrop'' else m))))"

definition handler :: "world \<Rightarrow> env \<Rightarrow> request \<Rightarrow> outcome" where
  "handler w e req =
     (if reqMethod req \<noteq> ''POST''
      then \<lparr> final = Responded (Response 405 (ErrorBody ''Method not allowed'')), events = [] \<rparr>
      else
        (case tryBody w e req of
           (evs, Returned r) \<Rightarrow> \<lparr> final = Responded r, events = evs \<rparr>
         | (evs, Normal u) \<Rightarrow> \<lparr> final = NoResponse, events = evs \<rparr>
         | (evs, Threw error) \<Rightarrow>
             \<lparr> final = topLevelCatch error,
               events = evs @ [ConsoleError [LStr ''Airdrop error:'', LErr error]] \<rparr>))"

subsection \<open>What a run wrote, and what a call threw\<close>

text \<open>
  The strings a run hands to the client or to the console: the error string or the
  signature and the literal parts of the message in the response body, and the
  string arguments and error messages of every console line.
\<close>

fun logarg_texts :: "logarg \<Rightarrow> string list" where
  "logarg_texts (LStr s) = [s]"
| "logarg_texts (LErr (ErrorMsg m)) = [m]"
| "logarg_texts (LErr NoMsg) = []"

fun event_texts :: "event \<Rightarrow> string list" where
  "event_texts (ConsoleError args) = concat (map logarg_texts args)"
| "event_texts (ConsoleLog args) = concat (map logarg_texts args)"
| "event_texts (ReadEnv v) = []"
| "event_texts (Call c) = []"

fun piece_texts :: "piece \<Rightarrow> string list" where
  "piece_texts (Lit s) = [s]"
| "piece_texts (Interp n) = []"

fun json_texts :: "json \<Rightarrow> string list" where
  "json_texts (ErrorBody s) = [s]"
| "json_texts (SuccessBody sig amt msg) = sig # concat (map piece_texts msg)"

fun final_texts :: "final \<Rightarrow> string list" where
  "final_texts (Responded (Response st b)) = json_texts b"
| "final_texts Rejected = []"
| "final_texts NoResponse = []"

definition written :: "outcome \<Rightarrow> string list" where
  "written out = final_texts (final out) @ concat (map event_texts (events out))"

text \<open>The string literals of the source that can reach a response or the console.\<close>

definition handler_literals :: "string list" where
  "handler_literals =
     [''Method not allowed'', ''Wallet address is required'', ''Invalid wallet address format'',
      ''Missing environment variables'', ''Server configuration error'',
      ''Error parsing private key:'', ''Invalid sender private key format'',
      ''insufficient_token_balance'', ''Error checking recipient token account:'',
      ''Successfully airdropped '', '' DUCK tokens'', ''Airdrop error:'',
      ''already_claimed_or_has_balance'', ''Internal server error during airdrop'']"

text \<open>What the world throws on a call, if it throws.\<close>

definition thrown :: "exn + 'a \<Rightarrow> exn option" where
  "thrown r = (case r of Inl x \<Rightarrow> Some x | Inr v \<Rightarrow> None)"

fun thrownBy :: "world \<Rightarrow> call \<Rightarrow> exn option" where
  "thrownBy w (NewPublicKey v) = thrown (newPublicKey w v)"
| "thrownBy w (JsonParse s) = thrown (jsonParse w s)"
| "thrownBy w (Bs58Decode s) = thrown (bs58decode w s)"
| "thrownBy w (NewUint8Array v) = thrown (newUint8Array w v)"
| "thrownBy w (FromSecretKey bytes) = thrown (fromSecretKey w bytes)"
| "thrownBy w (NewConnection url c) = thrown (newConnection w url c)"
| "thrownBy w (GetAssociatedTokenAddress m owner) = thrown (getAssociatedTokenAddress w m owner)"
| "thrownBy w (GetTokenAccountBalance c a) = thrown (getTokenAccountBalance w c a)"
| "thrownBy w (GetAccountInfo c a) = thrown (getAccountInfo w c a)"
| "thrownBy w (CreateAssociatedTokenAccountInstruction p a owner m) =
     thrown (createAssociatedTokenAccountInstruction w p a owner m)"
| "thrownBy w (CreateTransferInstruction s d owner x) = thrown (createTransferInstruction w s d owner x)"
| "thrownBy w (GetLatestBlockhash c) = thrown (getLatestBlockhash w c)"
| "thrownBy w (SendAndConfirmTransaction c t ks k) = thrown (sendAndConfirmTransaction w c t ks k)"

text \<open>
  The calls that stand inside one of the three inner \<open>try\<close> blocks: the parse of the
  wallet address (lines 20 to 24), the four calls of the key parsing (lines 40 to
  55) and the account query (lines 83 to 87). The mint address is parsed by the
  same constructor outside any inner block, but after the wallet address: when
  the two strings are equal the constructor has already returned on it.
\<close>

fun innerCaught :: "request \<Rightarrow> call \<Rightarrow> bool" where
  "innerCaught req (NewPublicKey v) = (getWalletAddress (reqBody req) = Inr v)"
| "innerCaught req (JsonParse s) = True"
| "innerCaught req (Bs58Decode s) = True"
| "innerCaught req (NewUint8Array v) = True"
| "innerCaught req (FromSecretKey bytes) = True"
| "innerCaught req (GetAccountInfo c a) = True"
| "innerCaught req (NewConnection url c) = False"
| "innerCaught req (GetAssociatedTokenAddress m owner) = False"
| "innerCaught req (GetTokenAccountBalance c a) = False"
| "innerCaught req (CreateAssociatedTokenAccountInstruction p a owner m) = False"
| "innerCaught req (CreateTransferInstruction s d owner x) = False"
| "innerCaught req (GetLatestBlockhash c) = False"
| "innerCaught req (SendAndConfirmTransaction c t ks k) = False"

text \<open>A block lets an exception escape: if the event happened in it, it completes by throwing \<open>x\<close>.\<close>

definition escapes :: "event \<Rightarrow> exn \<Rightarrow> 'a comp \<Rightarrow> bool" where
  "escapes ev x m \<longleftrightarrow> (ev \<in> set (fst m) \<longrightarrow> snd m = Threw x)"

text \<open>
  Where a written string can come from, given the events of the run: a literal of
  the source, the message of an error that a call of the run threw, the message of
  the TypeError of line 11, or the signature that the submission returned (alone,
  or after the literal of line 125). \<open>texts_accounted\<close> says so of a block: of
  its console lines, of what it throws and of the response it returns.
\<close>

definition accounted_for :: "world \<Rightarrow> request \<Rightarrow> event list \<Rightarrow> string \<Rightarrow> bool" where
  "accounted_for w req evs s \<longleftrightarrow>
     s \<in> set handler_literals
     \<or> (\<exists>c. Call c \<in> set evs \<and> thrownBy w c = Some (ErrorMsg s))
     \<or> getWalletAddress (reqBody req) = Inl (ErrorMsg s)
     \<or> (\<exists>c t ks k sig.
           Call (SendAndConfirmTransaction c t ks k) \<in> set evs
           \<and> sendAndConfirmTransaction w c t ks k = Inr sig
           \<and> (s = sig \<or> s = ''Airdrop successful: '' @ sig))"

definition texts_accounted :: "world \<Rightarrow> request \<Rightarrow> 'a comp \<Rightarrow> bool" where
  "texts_accounted w req m \<longleftrightarrow>
     (\<forall>ev \<in> set (fst m). \<forall>s \<in> set (event_texts ev). accounted_for w req (fst m) s)
     \<and> (\<forall>x. snd m = Threw x \<longrightarrow>
            (\<exists>c. Call c \<in> set (fst m) \<and> thrownBy w c = Some x)
            \<or> getWalletAddress (reqBody req) = Inl x)
     \<and> (\<forall>r. snd m = Returned r \<longrightarrow>
            (\<forall>s \<in> set (final_texts (Responded r)). accounted_for w req (fst m) s))"

subsection \<open>A concrete world, configuration and request\<close>

text \<open>
  A small world to run the handler in: a recipient without a token account, a
  sender holding one million tokens of a mint with six decimals, and libraries
  that accept the two addresses and the one secret key they are given (short
  stand-ins for real addresses and a 64-byte key) and throw on anything else.
  Its \<open>JSON.parse\<close> reads two arrays; on the text \<open>[11,22,x]\<close> it throws the
  SyntaxError of V8, whose message quotes the text that was parsed.
\<close>

definition demo_parse_error :: string where
  "demo_parse_error =
     ''Unexpected token 'x', '' @ [CHR 0x22] @ ''[11,22,x]'' @ [CHR 0x22]
       @ '' is not valid JSON''"

definition demo_world :: world where
  "demo_world =
     \<lparr> newPublicKey =
         (\<lambda>v. case v of
                JStr s \<Rightarrow>
                  if s = ''RecipientWallet'' \<or> s = ''DuckMint'' then Inr (PublicKey s)
                  else Inl (ErrorMsg ''Invalid public key input'')
              | _ \<Rightarrow> Inl (ErrorMsg ''Invalid public key input'')),
       jsonParse =
         (\<lambda>s. if s = ''[11,22,33]''
              then Inr (JArr [JNum (Num 11), JNum (Num 22), JNum (Num 33)])
              else if s = ''[11,22]'' then Inr (JArr [JNum (Num 11), JNum (Num 22)])
              else if s = ''[11,22,x]'' then Inl (ErrorMsg demo_parse_error)
              else Inl (ErrorMsg ''Unexpected end of JSON input'')),
       bs58decode =
         (\<lambda>s. if s = ''4iyv'' then Inr [11, 22, 33] else Inl (ErrorMsg ''Non-base58 character'')),
       newUint8Array =
         (\<lambda>v. case v of
                JArr xs \<Rightarrow>
                  Inr (map (\<lambda>x. case x of JNum (Num r) \<Rightarrow> nat \<lfloor>r\<rfloor> mod 256 | _ \<Rightarrow> 0) xs)
              | _ \<Rightarrow> Inr []),
       fromSecretKey =
         (\<lambda>bytes. if bytes = [11, 22, 33] then Inr (Keypair (PublicKey ''SenderWallet'') bytes)
                  else Inl (ErrorMsg ''bad secret key size'')),
       newConnection = (\<lambda>url commitment. Inr (Connection url commitment)),
       getAssociatedTokenAddress =
         (\<lambda>mint owner. case owner of PublicKey s \<Rightarrow> Inr (PublicKey (''ATA of '' @ s))),
       getTokenAccountBalance =
         (\<lambda>c a. Inr \<lparr> amount = 1000000 * 10 ^ 6, decimals = 6, uiAmount = Some (Num 1000000) \<rparr>),
       getAccountInfo = (\<lambda>c a. Inr None),
       createAssociatedTokenAccountInstruction =
         (\<lambda>payer ata owner mint. Inr (Instruction ''AssociatedToken'' [payer, ata, owner, mint] [])),
       createTransferInstruction =
         (\<lambda>source dest owner amt. Inr (Instruction ''Token'' [source, dest, owner] [3])),
       getLatestBlockhash = (\<lambda>c. Inr ''Blockhash1''),
       sendAndConfirmTransaction = (\<lambda>c t signers commitment. Inr ''Signature1'') \<rparr>"

definition demo_env :: env where
  "demo_env =
     \<lparr> SENDER_PRIVATE_KEY = Some ''[11,22,33]'', TOKEN_MINT_ADDRESS = Some ''DuckMint'',
       RPC_URL = Some ''https://rpc.example'', TOKEN_AMOUNT = None \<rparr>"

text \<open>The same world with a recipient whose token account exists.\<close>

definition demo_world_existing :: world where
  "demo_world_existing =
     demo_world \<lparr> getAccountInfo := (\<lambda>c a. Inr (Some (AccountInfo 2039280 (PublicKey ''Token'')))) \<rparr>"

text \<open>
  Three more variations: a sender holding one thousand tokens; a submission that
  fails because the recipient's account was created in the meantime; an account
  query that fails.
\<close>

definition demo_world_poor :: world where
  "demo_world_poor =
     demo_world \<lparr> getTokenAccountBalance :=
       (\<lambda>c a. Inr \<lparr> amount = 1000 * 10 ^ 6, decimals = 6, uiAmount = Some (Num 1000) \<rparr>) \<rparr>"

definition demo_world_racing :: world where
  "demo_world_racing =
     demo_world \<lparr> sendAndConfirmTransaction :=
       (\<lambda>c t signers commitment.
          Inl (ErrorMsg ''Transaction simulation failed: Allocate: account already in use'')) \<rparr>"

definition demo_world_flaky :: world where
  "demo_world_flaky = demo_world \<lparr> getAccountInfo := (\<lambda>c a. Inl (ErrorMsg ''fetch failed'')) \<rparr>"

text \<open>What lines 11 to 87 leave in scope in the first world.\<close>

definition demo_scope :: scope where
  "demo_scope =
     \<lparr> recipientPublicKey = PublicKey ''RecipientWallet'', amountCfg = Num 25000,
       senderKeypair = Keypair (PublicKey ''SenderWallet'') [11, 22, 33],
       conn = Connection ''https://rpc.example'' ''confirmed'',
       mintPublicKey = PublicKey ''DuckMint'',
       senderTokenAccount = PublicKey ''ATA of SenderWallet'',
       recipientTokenAccount = PublicKey ''ATA of RecipientWallet'',
       recipientTokenAccountInfo = None \<rparr>"

definition demo_request :: request where
  "demo_request =
     \<lparr> reqMethod = ''POST'', reqBody = JObj [(''walletAddress'', JStr ''RecipientWallet'')] \<rparr>"

text \<open>
  A configuration whose credential is a JSON array with a stray token, and the
  submission call of the run in the first world.
\<close>

definition demo_env_bad_key :: env where
  "demo_env_bad_key = demo_env \<lparr> SENDER_PRIVATE_KEY := Some ''[11,22,x]'' \<rparr>"

definition demo_submission :: call where
  "demo_submission =
     SendAndConfirmTransaction (Connection ''https://rpc.example'' ''confirmed'')
       \<lparr> instructions =
           [Instruction ''AssociatedToken''
              [PublicKey ''SenderWallet'', PublicKey ''ATA of RecipientWallet'',
               PublicKey ''RecipientWallet'', PublicKey ''DuckMint''] [],
            Instruction ''Token''
              [PublicKey ''ATA of SenderWallet'', PublicKey ''ATA of RecipientWallet'',
               PublicKey ''SenderWallet''] [3]],
         recentBlockhash = Some ''Blockhash1'',
         feePayer = Some (PublicKey ''SenderWallet'') \<rparr>
       [Keypair (PublicKey ''SenderWallet'') [11, 22, 33]] ''confirmed''"

section \<open>Properties\<close>

subsection \<open>Events and completion of composed blocks\<close>

lemma fst_andThen:
  "fst (andThen m f) =
     fst m @ (case snd m of Normal x \<Rightarrow> fst (f x) | Returned r \<Rightarrow> [] | Threw e \<Rightarrow> [])"
  by (cases m) (auto simp: andThen_def split: completion.splits prod.splits)

lemma snd_andThen:
  "snd (andThen m f) =
     (case snd m of Normal x \<Rightarrow> snd (f x) | Returned r \<Rightarrow> Returned r | Threw e \<Rightarrow> Threw e)"
  by (cases m) (auto simp: andThen_def split: completion.splits prod.splits)

lemma fst_tryCatch:
  "fst (tryCatch m h) =
     fst m @ (case snd m of Threw e \<Rightarrow> fst (h e) | Normal x \<Rightarrow> [] | Returned r \<Rightarrow> [])"
  by (cases m) (auto simp: tryCatch_def split: completion.splits prod.splits)

lemma snd_tryCatch:
  "snd (tryCatch m h) =
     (case snd m of Threw e \<Rightarrow> snd (h e) | Normal x \<Rightarrow> Normal x | Returned r \<Rightarrow> Returned r)"
  by (cases m) (auto simp: tryCatch_def split: completion.splits prod.splits)

lemma andThen_Normal:
  "snd m = Normal v \<Longrightarrow> andThen m f = (fst m @ fst (f v), snd (f v))"
  by (cases m; cases "f v"; simp add: andThen_def)

lemma andThen_abrupt:
  "snd m = Returned r \<Longrightarrow> andThen m f = (fst m, Returned r)"
  "snd m = Threw x \<Longrightarrow> andThen m f = (fst m, Threw x)"
  by (cases m; simp add: andThen_def)+

lemma tryCatch_Threw:
  "snd m = Threw x \<Longrightarrow> tryCatch m h = (fst m @ fst (h x), snd (h x))"
  by (cases m; cases "h x"; simp add: tryCatch_def)

lemma tryCatch_other:
  "snd m = Normal v \<Longrightarrow> tryCatch m h = (fst m, Normal v)"
  "snd m = Returned r \<Longrightarrow> tryCatch m h = (fst m, Returned r)"
  by (cases m; simp add: tryCatch_def)+

lemma in_fst_andThen:
  "ev \<in> set (fst (andThen m f)) \<longleftrightarrow>
     ev \<in> set (fst m) \<or> (\<exists>x. snd m = Normal x \<and> ev \<in> set (fst (f x)))"
  by (cases "snd m") (auto simp: fst_andThen)

lemma in_fst_tryCatch:
  "ev \<in> set (fst (tryCatch m h)) \<longleftrightarrow>
     ev \<in> set (fst m) \<or> (\<exists>x. snd m = Threw x \<and> ev \<in> set (fst (h x)))"
  by (cases "snd m") (auto simp: fst_tryCatch)

lemma snd_andThen_Returned:
  "snd (andThen m f) = Returned r \<longleftrightarrow>
     snd m = Returned r \<or> (\<exists>v. snd m = Normal v \<and> snd (f v) = Returned r)"
  by (cases "snd m") (simp_all add: snd_andThen)

lemma snd_andThen_Normal:
  "snd (andThen m f) = Normal y \<longleftrightarrow> (\<exists>v. snd m = Normal v \<and> snd (f v) = Normal y)"
  by (cases "snd m") (simp_all add: snd_andThen)

lemma perform_simps:
  "fst (perform c r) = [Call c]"
  "snd (perform c (Inl e)) = Threw e"
  "snd (perform c (Inr v)) = Normal v"
  by (simp_all add: perform_def)

lemma snd_perform_Normal: "snd (perform c r) = Normal v \<longleftrightarrow> r = Inr v"
  by (cases r) (simp_all add: perform_def)

lemma snd_perform_Threw: "snd (perform c r) = Threw e \<longleftrightarrow> r = Inl e"
  by (cases r) (simp_all add: perform_def)

lemma snd_perform_Returned: "snd (perform c r) \<noteq> Returned x"
  by (cases r) (simp_all add: perform_def)

lemma result_not_Returned: "snd (result v) \<noteq> Returned r"
  by (simp add: result_def)

lemmas comp_simps = fst_andThen snd_andThen fst_tryCatch snd_tryCatch perform_simps
  result_def respond_def emit_def

lemmas perform_iffs = snd_perform_Normal snd_perform_Threw snd_perform_Returned

subsection \<open>Running the handler in a concrete world\<close>

text \<open>Unfolding every block evaluates a run.\<close>

lemmas run_defs = handler_def tryBody_def prepare_def assemble_def submit_def topLevelCatch_def
  validateRequest_def loadConfig_def parseSenderKey_def connect_def checkBalance_def
  queryRecipientAccount_def
  andThen_def tryCatch_def perform_def respond_def result_def emit_def
  absent_def orDefault_def configuredAmount_def startsWith_def insufficient_def toNumber_def
  newTransaction_def add_def arrayFrom_def Math_pow_10_9_def

lemmas parseInt_defs = parseInt_def startsWith_def isWhiteSpace_def isRadixDigit_def
  digitValue_def digitsValue_def

lemmas demo_defs = demo_world_def demo_world_existing_def demo_world_poor_def
  demo_world_racing_def demo_world_flaky_def demo_env_def demo_env_bad_key_def
  demo_request_def demo_scope_def demo_parse_error_def demo_submission_def

lemma demo_run:
  "handler demo_world demo_env demo_request =
     \<lparr> final = Responded (Response 200
          (SuccessBody ''Signature1'' (Num 25000)
             [Lit ''Successfully airdropped '', Interp (Num 25000), Lit '' DUCK tokens''])),
       events =
         [Call (NewPublicKey (JStr ''RecipientWallet'')),
          ReadEnv ''SENDER_PRIVATE_KEY'', ReadEnv ''TOKEN_MINT_ADDRESS'',
          ReadEnv ''RPC_URL'', ReadEnv ''TOKEN_AMOUNT'',
          Call (JsonParse ''[11,22,33]''),
          Call (NewUint8Array (JArr [JNum (Num 11), JNum (Num 22), JNum (Num 33)])),
          Call (FromSecretKey [11, 22, 33]),
          Call (NewConnection ''https://rpc.example'' ''confirmed''),
          Call (NewPublicKey (JStr ''DuckMint'')),
          Call (GetAssociatedTokenAddress (PublicKey ''DuckMint'') (PublicKey ''SenderWallet'')),
          Call (GetAssociatedTokenAddress (PublicKey ''DuckMint'') (PublicKey ''RecipientWallet'')),
          Call (GetTokenAccountBalance (Connection ''https://rpc.example'' ''confirmed'')
                  (PublicKey ''ATA of SenderWallet'')),
          Call (GetAccountInfo (Connection ''https://rpc.example'' ''confirmed'')
                  (PublicKey ''ATA of RecipientWallet'')),
          Call (CreateAssociatedTokenAccountInstruction (PublicKey ''SenderWallet'')
                  (PublicKey ''ATA of RecipientWallet'') (PublicKey ''RecipientWallet'')
                  (PublicKey ''DuckMint'')),
          Call (CreateTransferInstruction (PublicKey ''ATA of SenderWallet'')
                  (PublicKey ''ATA of RecipientWallet'') (PublicKey ''SenderWallet'')
                  (Num 25000000000000)),
          Call (GetLatestBlockhash (Connection ''https://rpc.example'' ''confirmed'')),
          Call demo_submission,
          ConsoleLog [LStr ''Airdrop successful: Signature1'']] \<rparr>"
  by (simp add: run_defs parseInt_defs demo_defs)




subsection \<open>The blocks one by one\<close>

lemma validateRequest_Returned:
  "snd (validateRequest w req) = Returned r \<Longrightarrow>
     r = Response 400 (ErrorBody ''Wallet address is required'')
     \<or> r = Response 400 (ErrorBody ''Invalid wallet address format'')"
  by (auto simp: validateRequest_def comp_simps perform_iffs
        split: completion.splits sum.splits if_splits)

lemma loadConfig_Returned:
  "snd (loadConfig e) = Returned r \<Longrightarrow> r = Response 500 (ErrorBody ''Server configuration error'')"
  by (auto simp: loadConfig_def comp_simps split: if_splits)

lemma loadConfig_Normal:
  "snd (loadConfig e) = Normal cfg \<longleftrightarrow>
     \<not> absent (SENDER_PRIVATE_KEY e) \<and> \<not> absent (TOKEN_MINT_ADDRESS e) \<and> \<not> absent (RPC_URL e)
     \<and> cfg = \<lparr> senderPrivateKey = orDefault (SENDER_PRIVATE_KEY e) [],
                tokenMintAddress = orDefault (TOKEN_MINT_ADDRESS e) [],
                rpcUrl = orDefault (RPC_URL e) [],
                tokenAmount = configuredAmount e \<rparr>"
  by (auto simp: loadConfig_def comp_simps split: if_splits)

lemma parseSenderKey_json:
  "startsWith key ''['' \<Longrightarrow>
   parseSenderKey w key =
     (case jsonParse w key of
        Inl x \<Rightarrow>
          ([Call (JsonParse key), ConsoleError [LStr ''Error parsing private key:'', LErr x]],
           Returned (Response 500 (ErrorBody ''Invalid sender private key format'')))
      | Inr arr \<Rightarrow>
          (case newUint8Array w arr of
             Inl x \<Rightarrow>
               ([Call (JsonParse key), Call (NewUint8Array arr),
                 ConsoleError [LStr ''Error parsing private key:'', LErr x]],
                Returned (Response 500 (ErrorBody ''Invalid sender private key format'')))
           | Inr bytes \<Rightarrow>
               (case fromSecretKey w bytes of
                  Inl x \<Rightarrow>
                    ([Call (JsonParse key), Call (NewUint8Array arr), Call (FromSecretKey bytes),
                      ConsoleError [LStr ''Error parsing private key:'', LErr x]],
                     Returned (Response 500 (ErrorBody ''Invalid sender private key format'')))
                | Inr kp \<Rightarrow>
                    ([Call (JsonParse key), Call (NewUint8Array arr), Call (FromSecretKey bytes)],
                     Normal kp))))"
  by (simp add: parseSenderKey_def andThen_def tryCatch_def perform_def respond_def emit_def
        split: sum.splits)

lemma parseSenderKey_bs58:
  "\<not> startsWith key ''['' \<Longrightarrow>
   parseSenderKey w key =
     (case bs58decode w key of
        Inl x \<Rightarrow>
          ([Call (Bs58Decode key), ConsoleError [LStr ''Error parsing private key:'', LErr x]],
           Returned (Response 500 (ErrorBody ''Invalid sender private key format'')))
      | Inr bs \<Rightarrow>
          (case newUint8Array w (arrayFrom bs) of
             Inl x \<Rightarrow>
               ([Call (Bs58Decode key), Call (NewUint8Array (arrayFrom bs)),
                 ConsoleError [LStr ''Error parsing private key:'', LErr x]],
                Returned (Response 500 (ErrorBody ''Invalid sender private key format'')))
           | Inr bytes \<Rightarrow>
               (case fromSecretKey w bytes of
                  Inl x \<Rightarrow>
                    ([Call (Bs58Decode key), Call (NewUint8Array (arrayFrom bs)),
                      Call (FromSecretKey bytes),
                      ConsoleError [LStr ''Error parsing private key:'', LErr x]],
                     Returned (Response 500 (ErrorBody ''Invalid sender private key format'')))
                | Inr kp \<Rightarrow>
                    ([Call (Bs58Decode key), Call (NewUint8Array (arrayFrom bs)),
                      Call (FromSecretKey bytes)],
                     Normal kp))))"
  by (simp add: parseSenderKey_def andThen_def tryCatch_def perform_def respond_def emit_def
        result_def split: sum.splits)

lemma parseSenderKey_Returned:
  "snd (parseSenderKey w key) = Returned r \<Longrightarrow>
     r = Response 500 (ErrorBody ''Invalid sender private key format'')"
  by (cases "startsWith key ''[''")
     (auto simp: parseSenderKey_json parseSenderKey_bs58 split: sum.splits)

lemma connect_not_Returned: "snd (connect w cfg kp rpk) \<noteq> Returned r"
  by (simp add: connect_def comp_simps perform_iffs split: completion.splits sum.splits)

lemma checkBalance_cases:
  "checkBalance w c a amt =
     (case getTokenAccountBalance w c a of
        Inl x \<Rightarrow> ([Call (GetTokenAccountBalance c a)], Threw x)
      | Inr bal \<Rightarrow>
          ([Call (GetTokenAccountBalance c a)],
           if insufficient bal amt
           then Returned (Response 400 (ErrorBody ''insufficient_token_balance''))
           else Normal ()))"
  by (simp add: checkBalance_def andThen_def perform_def respond_def result_def split: sum.splits)

lemma queryRecipientAccount_cases:
  "queryRecipientAccount w c a =
     (case getAccountInfo w c a of
        Inl x \<Rightarrow> ([Call (GetAccountInfo c a),
                   ConsoleError [LStr ''Error checking recipient token account:'', LErr x]],
                  Normal None)
      | Inr info \<Rightarrow> ([Call (GetAccountInfo c a)], Normal info))"
  by (simp add: queryRecipientAccount_def andThen_def tryCatch_def perform_def result_def emit_def
        split: sum.splits)

lemma queryRecipientAccount_not_Returned: "snd (queryRecipientAccount w c a) \<noteq> Returned r"
  by (simp add: queryRecipientAccount_cases split: sum.splits)

lemma assemble_cases:
  "assemble w ctx =
     (if recipientTokenAccountInfo ctx = None
      then
        (case createAssociatedTokenAccountInstruction w (publicKey (senderKeypair ctx))
                (recipientTokenAccount ctx) (recipientPublicKey ctx) (mintPublicKey ctx) of
           Inl x \<Rightarrow>
             ([Call (CreateAssociatedTokenAccountInstruction (publicKey (senderKeypair ctx))
                      (recipientTokenAccount ctx) (recipientPublicKey ctx) (mintPublicKey ctx))],
              Threw x)
         | Inr a \<Rightarrow>
             (case createTransferInstruction w (senderTokenAccount ctx) (recipientTokenAccount ctx)
                     (publicKey (senderKeypair ctx)) (js_mul (amountCfg ctx) Math_pow_10_9) of
                Inl x \<Rightarrow>
                  ([Call (CreateAssociatedTokenAccountInstruction (publicKey (senderKeypair ctx))
                           (recipientTokenAccount ctx) (recipientPublicKey ctx) (mintPublicKey ctx)),
                    Call (CreateTransferInstruction (senderTokenAccount ctx)
                           (recipientTokenAccount ctx) (publicKey (senderKeypair ctx))
                           (js_mul (amountCfg ctx) Math_pow_10_9))],
                   Threw x)
              | Inr t \<Rightarrow>
                  ([Call (CreateAssociatedTokenAccountInstruction (publicKey (senderKeypair ctx))
                           (recipientTokenAccount ctx) (recipientPublicKey ctx) (mintPublicKey ctx)),
                    Call (CreateTransferInstruction (senderTokenAccount ctx)
                           (recipientTokenAccount ctx) (publicKey (senderKeypair ctx))
                           (js_mul (amountCfg ctx) Math_pow_10_9))],
                   Normal \<lparr> instructions = [a, t], recentBlockhash = None, feePayer = None \<rparr>)))
      else
        (case createTransferInstruction w (senderTokenAccount ctx) (recipientTokenAccount ctx)
                (publicKey (senderKeypair ctx)) (js_mul (amountCfg ctx) Math_pow_10_9) of
           Inl x \<Rightarrow>
             ([Call (CreateTransferInstruction (senderTokenAccount ctx)
                      (recipientTokenAccount ctx) (publicKey (senderKeypair ctx))
                      (js_mul (amountCfg ctx) Math_pow_10_9))],
              Threw x)
         | Inr t \<Rightarrow>
             ([Call (CreateTransferInstruction (senderTokenAccount ctx)
                      (recipientTokenAccount ctx) (publicKey (senderKeypair ctx))
                      (js_mul (amountCfg ctx) Math_pow_10_9))],
              Normal \<lparr> instructions = [t], recentBlockhash = None, feePayer = None \<rparr>)))"
  by (simp add: assemble_def andThen_def perform_def result_def newTransaction_def add_def
        split: sum.splits)

lemma assemble_not_Returned: "snd (assemble w ctx) \<noteq> Returned r"
  by (simp add: assemble_cases split: sum.splits)

lemma submit_cases:
  "submit w ctx t =
     (case getLatestBlockhash w (conn ctx) of
        Inl x \<Rightarrow> ([Call (GetLatestBlockhash (conn ctx))], Threw x)
      | Inr blockhash \<Rightarrow>
          (case sendAndConfirmTransaction w (conn ctx)
                  (t \<lparr> recentBlockhash := Some blockhash,
                       feePayer := Some (publicKey (senderKeypair ctx)) \<rparr>)
                  [senderKeypair ctx] ''confirmed'' of
             Inl x \<Rightarrow>
               ([Call (GetLatestBlockhash (conn ctx)),
                 Call (SendAndConfirmTransaction (conn ctx)
                         (t \<lparr> recentBlockhash := Some blockhash,
                              feePayer := Some (publicKey (senderKeypair ctx)) \<rparr>)
                         [senderKeypair ctx] ''confirmed'')], Threw x)
           | Inr signature \<Rightarrow>
               ([Call (GetLatestBlockhash (conn ctx)),
                 Call (SendAndConfirmTransaction (conn ctx)
                         (t \<lparr> recentBlockhash := Some blockhash,
                              feePayer := Some (publicKey (senderKeypair ctx)) \<rparr>)
                         [senderKeypair ctx] ''confirmed''),
                 ConsoleLog [LStr (''Airdrop successful: '' @ signature)]],
                Returned (Response 200
                  (SuccessBody signature (amountCfg ctx)
                     [Lit ''Successfully airdropped '', Interp (amountCfg ctx),
                      Lit '' DUCK tokens''])))))"
  by (simp add: submit_def andThen_def perform_def respond_def emit_def split: sum.splits)

text \<open>Where the balance query, the transfer instruction and the submission can happen.\<close>

lemma balance_call_stages:
  "Call (GetTokenAccountBalance c a) \<notin> set (fst (validateRequest w req))"
  "Call (GetTokenAccountBalance c a) \<notin> set (fst (loadConfig e))"
  "Call (GetTokenAccountBalance c a) \<notin> set (fst (parseSenderKey w key))"
  "Call (GetTokenAccountBalance c a) \<notin> set (fst (connect w cfg kp rpk))"
  "Call (GetTokenAccountBalance c a) \<notin> set (fst (queryRecipientAccount w c' a'))"
  "Call (GetTokenAccountBalance c a) \<notin> set (fst (assemble w ctx))"
  "Call (GetTokenAccountBalance c a) \<notin> set (fst (submit w ctx t))"
  by (simp_all add: validateRequest_def loadConfig_def parseSenderKey_def connect_def
        queryRecipientAccount_def assemble_def submit_def comp_simps
        split: completion.splits sum.splits)

lemma submission_stages:
  "Call (SendAndConfirmTransaction c t ks k) \<notin> set (fst (validateRequest w req))"
  "Call (SendAndConfirmTransaction c t ks k) \<notin> set (fst (loadConfig e))"
  "Call (SendAndConfirmTransaction c t ks k) \<notin> set (fst (parseSenderKey w key))"
  "Call (SendAndConfirmTransaction c t ks k) \<notin> set (fst (connect w cfg kp rpk))"
  "Call (SendAndConfirmTransaction c t ks k) \<notin> set (fst (checkBalance w c' a' amt))"
  "Call (SendAndConfirmTransaction c t ks k) \<notin> set (fst (queryRecipientAccount w c' a'))"
  "Call (SendAndConfirmTransaction c t ks k) \<notin> set (fst (assemble w ctx))"
  by (simp_all add: validateRequest_def loadConfig_def parseSenderKey_def connect_def
        checkBalance_def queryRecipientAccount_def assemble_def comp_simps
        split: completion.splits sum.splits)

lemma prepare_no_submission:
  "Call (SendAndConfirmTransaction c t ks k) \<notin> set (fst (prepare w e req))"
  by (simp add: prepare_def in_fst_andThen submission_stages result_def)


subsection \<open>The handler as a whole\<close>

lemma handler_POST:
  "reqMethod req = ''POST'' \<Longrightarrow>
   handler w e req =
     (case snd (tryBody w e req) of
        Returned r \<Rightarrow> \<lparr> final = Responded r, events = fst (tryBody w e req) \<rparr>
      | Normal u \<Rightarrow> \<lparr> final = NoResponse, events = fst (tryBody w e req) \<rparr>
      | Threw x \<Rightarrow>
          \<lparr> final = topLevelCatch x,
            events = fst (tryBody w e req) @ [ConsoleError [LStr ''Airdrop error:'', LErr x]] \<rparr>)"
  by (cases "tryBody w e req") (simp add: handler_def split: completion.splits)

lemma handler_not_POST:
  "reqMethod req \<noteq> ''POST'' \<Longrightarrow>
   handler w e req =
     \<lparr> final = Responded (Response 405 (ErrorBody ''Method not allowed'')), events = [] \<rparr>"
  by (simp add: handler_def)

lemma call_in_handler:
  "Call c \<in> set (events (handler w e req)) \<Longrightarrow>
     reqMethod req = ''POST'' \<and> Call c \<in> set (fst (tryBody w e req))"
  by (cases "reqMethod req = ''POST''")
     (auto simp: handler_POST handler_not_POST split: completion.splits)

lemma tryBody_events_in_handler:
  "reqMethod req = ''POST'' \<Longrightarrow> set (fst (tryBody w e req)) \<subseteq> set (events (handler w e req))"
  by (auto simp: handler_POST split: completion.splits)

text \<open>What a run that reaches the assembly has established.\<close>

lemma prepare_NormalD:
  assumes "snd (prepare w e req) = Normal ctx"
  shows "\<exists>wa bal. getWalletAddress (reqBody req) = Inr wa \<and> truthy wa
     \<and> newPublicKey w wa = Inr (recipientPublicKey ctx)
     \<and> \<not> absent (SENDER_PRIVATE_KEY e) \<and> \<not> absent (TOKEN_MINT_ADDRESS e) \<and> \<not> absent (RPC_URL e)
     \<and> snd (parseSenderKey w (orDefault (SENDER_PRIVATE_KEY e) [])) = Normal (senderKeypair ctx)
     \<and> newConnection w (orDefault (RPC_URL e) []) ''confirmed'' = Inr (conn ctx)
     \<and> newPublicKey w (JStr (orDefault (TOKEN_MINT_ADDRESS e) [])) = Inr (mintPublicKey ctx)
     \<and> getAssociatedTokenAddress w (mintPublicKey ctx) (publicKey (senderKeypair ctx))
           = Inr (senderTokenAccount ctx)
     \<and> getAssociatedTokenAddress w (mintPublicKey ctx) (recipientPublicKey ctx)
           = Inr (recipientTokenAccount ctx)
     \<and> getTokenAccountBalance w (conn ctx) (senderTokenAccount ctx) = Inr bal
     \<and> \<not> insufficient bal (configuredAmount e)
     \<and> amountCfg ctx = configuredAmount e
     \<and> recipientTokenAccountInfo ctx
           = (case getAccountInfo w (conn ctx) (recipientTokenAccount ctx) of
                Inl err \<Rightarrow> None | Inr info \<Rightarrow> info)"
  using assms
  by (auto simp: prepare_def validateRequest_def loadConfig_def connect_def checkBalance_def
           queryRecipientAccount_def comp_simps snd_perform_Normal snd_perform_Threw
           split: completion.splits sum.splits if_splits)

lemma prepare_balance_call:
  assumes "Call (GetTokenAccountBalance c a) \<in> set (fst (prepare w e req))"
    and "getTokenAccountBalance w c a = Inr bal"
    and "insufficient bal (configuredAmount e)"
  shows "snd (prepare w e req) = Returned (Response 400 (ErrorBody ''insufficient_token_balance''))"
proof -
  from assms(1) obtain rpk and cfg :: config and kp acc where
    st: "snd (validateRequest w req) = Normal rpk" "snd (loadConfig e) = Normal cfg"
        "snd (parseSenderKey w (senderPrivateKey cfg)) = Normal kp"
        "snd (connect w cfg kp rpk) = Normal acc"
    and "Call (GetTokenAccountBalance c a)
           \<in> set (fst (checkBalance w (connectionOf acc) (senderAccountOf acc) (tokenAmount cfg)))"
    by (auto simp: prepare_def in_fst_andThen balance_call_stages result_def)
  then have ca: "c = connectionOf acc" "a = senderAccountOf acc"
    by (auto simp: checkBalance_cases split: sum.splits)
  have "tokenAmount cfg = configuredAmount e"
    using st(2) by (simp add: loadConfig_Normal)
  then have "snd (checkBalance w (connectionOf acc) (senderAccountOf acc) (tokenAmount cfg))
          = Returned (Response 400 (ErrorBody ''insufficient_token_balance''))"
    using assms(2,3) ca by (simp add: checkBalance_cases)
  with st show ?thesis
    by (simp add: prepare_def snd_andThen)
qed

lemma prepare_Normal_balance_call:
  assumes "snd (prepare w e req) = Normal ctx"
  shows "Call (GetTokenAccountBalance (conn ctx) (senderTokenAccount ctx))
           \<in> set (fst (prepare w e req))"
proof -
  from assms obtain rpk and cfg :: config and kp acc u info where
    st: "snd (validateRequest w req) = Normal rpk" "snd (loadConfig e) = Normal cfg"
        "snd (parseSenderKey w (senderPrivateKey cfg)) = Normal kp"
        "snd (connect w cfg kp rpk) = Normal acc"
        "snd (checkBalance w (connectionOf acc) (senderAccountOf acc) (tokenAmount cfg)) = Normal u"
        "snd (queryRecipientAccount w (connectionOf acc) (recipientAccountOf acc)) = Normal info"
    and ctx: "conn ctx = connectionOf acc" "senderTokenAccount ctx = senderAccountOf acc"
    unfolding prepare_def
    by (simp only: snd_andThen_Normal) (auto simp: result_def)
  have "Call (GetTokenAccountBalance (connectionOf acc) (senderAccountOf acc))
          \<in> set (fst (checkBalance w (connectionOf acc) (senderAccountOf acc) (tokenAmount cfg)))"
    by (simp add: checkBalance_cases split: sum.splits)
  with st ctx show ?thesis
    by (simp add: prepare_def in_fst_andThen)
qed

text \<open>The responses that the body of the try can return.\<close>

lemma prepare_Returned:
  assumes "snd (prepare w e req) = Returned r"
  shows "r = Response 400 (ErrorBody ''Wallet address is required'')
     \<or> r = Response 400 (ErrorBody ''Invalid wallet address format'')
     \<or> r = Response 500 (ErrorBody ''Server configuration error'')
     \<or> r = Response 500 (ErrorBody ''Invalid sender private key format'')
     \<or> (r = Response 400 (ErrorBody ''insufficient_token_balance'')
         \<and> (\<exists>c a bal. Call (GetTokenAccountBalance c a) \<in> set (fst (prepare w e req))
                \<and> getTokenAccountBalance w c a = Inr bal
                \<and> insufficient bal (configuredAmount e)))"
proof -
  from assms have
    "snd (validateRequest w req) = Returned r
     \<or> snd (loadConfig e) = Returned r
     \<or> (\<exists>key. snd (parseSenderKey w key) = Returned r)
     \<or> (\<exists>rpk (cfg :: config) kp acc.
          snd (validateRequest w req) = Normal rpk \<and> snd (loadConfig e) = Normal cfg
          \<and> snd (parseSenderKey w (senderPrivateKey cfg)) = Normal kp
          \<and> snd (connect w cfg kp rpk) = Normal acc
          \<and> snd (checkBalance w (connectionOf acc) (senderAccountOf acc) (tokenAmount cfg))
              = Returned r)"
    unfolding prepare_def
    by (simp only: snd_andThen_Returned connect_not_Returned queryRecipientAccount_not_Returned
          result_not_Returned simp_thms) blast
  then consider
      (v) "snd (validateRequest w req) = Returned r"
    | (l) "snd (loadConfig e) = Returned r"
    | (p) key where "snd (parseSenderKey w key) = Returned r"
    | (b) rpk and cfg :: config and kp acc where
        "snd (validateRequest w req) = Normal rpk" "snd (loadConfig e) = Normal cfg"
        "snd (parseSenderKey w (senderPrivateKey cfg)) = Normal kp"
        "snd (connect w cfg kp rpk) = Normal acc"
        "snd (checkBalance w (connectionOf acc) (senderAccountOf acc) (tokenAmount cfg)) = Returned r"
    by blast
  then show ?thesis
  proof cases
    case v
    from validateRequest_Returned[OF v] show ?thesis by fast
  next
    case l
    from loadConfig_Returned[OF l] show ?thesis by simp
  next
    case p
    from parseSenderKey_Returned[OF p] show ?thesis by simp
  next
    case b
    from b(5) obtain bal where
      bal: "getTokenAccountBalance w (connectionOf acc) (senderAccountOf acc) = Inr bal"
        "insufficient bal (tokenAmount cfg)"
        "r = Response 400 (ErrorBody ''insufficient_token_balance'')"
      by (auto simp: checkBalance_cases split: sum.splits if_splits)
    have "Call (GetTokenAccountBalance (connectionOf acc) (senderAccountOf acc))
            \<in> set (fst (prepare w e req))"
      using b(1-4) by (simp add: prepare_def in_fst_andThen checkBalance_cases split: sum.splits)
    moreover have "tokenAmount cfg = configuredAmount e"
      using b(2) by (simp add: loadConfig_Normal)
    ultimately show ?thesis using bal by simp fast
  qed
qed

lemma tryBody_Returned:
  assumes "snd (tryBody w e req) = Returned r"
  shows "snd (prepare w e req) = Returned r
     \<or> (\<exists>sig. r = Response 200
           (SuccessBody sig (configuredAmount e)
              [Lit ''Successfully airdropped '', Interp (configuredAmount e),
               Lit '' DUCK tokens'']))"
proof -
  from assms consider
      (p) "snd (prepare w e req) = Returned r"
    | (s) ctx t where "snd (prepare w e req) = Normal ctx" "snd (submit w ctx t) = Returned r"
    by (auto simp: tryBody_def snd_andThen_Returned assemble_not_Returned)
  then show ?thesis
  proof cases
    case p
    then show ?thesis by simp
  next
    case s
    from prepare_NormalD[OF s(1)] have "amountCfg ctx = configuredAmount e"
      by blast
    with s(2) show ?thesis
      by (auto simp: submit_cases split: sum.splits)
  qed
qed

lemma topLevelCatch_responses:
  "topLevelCatch x \<noteq> Responded (Response 200 b)"
  "topLevelCatch x \<noteq> Responded (Response 400 (ErrorBody ''insufficient_token_balance''))"
  by (auto simp: topLevelCatch_def split: exn.splits)

lemma handler_success:
  assumes "final (handler w e req) = Responded (Response 200 body)"
  shows "\<exists>sig. body = SuccessBody sig (configuredAmount e)
           [Lit ''Successfully airdropped '', Interp (configuredAmount e), Lit '' DUCK tokens'']"
proof -
  have post: "reqMethod req = ''POST''"
    using assms by (auto simp: handler_def split: if_splits)
  from assms have "snd (tryBody w e req) = Returned (Response 200 body)"
    by (auto simp: handler_POST[OF post] topLevelCatch_responses split: completion.splits)
  from tryBody_Returned[OF this] prepare_Returned[of w e req "Response 200 body"]
  show ?thesis by auto
qed

lemma handler_insufficient:
  assumes "final (handler w e req)
             = Responded (Response 400 (ErrorBody ''insufficient_token_balance''))"
  shows "\<exists>bal. insufficient bal (configuredAmount e)"
proof -
  have post: "reqMethod req = ''POST''"
    using assms by (auto simp: handler_def split: if_splits)
  from assms have "snd (tryBody w e req)
      = Returned (Response 400 (ErrorBody ''insufficient_token_balance''))"
    by (auto simp: handler_POST[OF post] topLevelCatch_responses split: completion.splits)
  from tryBody_Returned[OF this]
    prepare_Returned[of w e req "Response 400 (ErrorBody ''insufficient_token_balance'')"]
  show ?thesis by auto
qed

lemma handler_key_failure:
  assumes "reqMethod req = ''POST''" and "snd (validateRequest w req) = Normal rpk"
    and "SENDER_PRIVATE_KEY e = Some key" and "key \<noteq> []"
    and "\<not> absent (TOKEN_MINT_ADDRESS e)" and "\<not> absent (RPC_URL e)"
    and "snd (parseSenderKey w key) = Returned r"
  shows "handler w e req =
     \<lparr> final = Responded r,
       events = fst (validateRequest w req) @ fst (loadConfig e) @ fst (parseSenderKey w key) \<rparr>"
proof -
  have cfg: "snd (loadConfig e) = Normal
      \<lparr> senderPrivateKey = key, tokenMintAddress = orDefault (TOKEN_MINT_ADDRESS e) [],
        rpcUrl = orDefault (RPC_URL e) [], tokenAmount = configuredAmount e \<rparr>"
    using assms(3-6) by (simp add: loadConfig_Normal absent_def orDefault_def)
  have "prepare w e req =
      (fst (validateRequest w req) @ fst (loadConfig e) @ fst (parseSenderKey w key), Returned r)"
    unfolding prepare_def
    by (simp add: andThen_Normal[OF assms(2)] andThen_Normal[OF cfg] andThen_abrupt(1)[OF assms(7)])
  then have "tryBody w e req =
      (fst (validateRequest w req) @ fst (loadConfig e) @ fst (parseSenderKey w key), Returned r)"
    by (simp add: tryBody_def andThen_abrupt)
  then show ?thesis
    by (simp add: handler_POST[OF assms(1)])
qed

subsection \<open>The amount of the transfer instruction\<close>



subsection \<open>The configuration error\<close>

text \<open>
  Claim C2, as the code has it. For a POST request whose wallet address is present
  and is accepted by the \<open>PublicKey\<close> constructor, if one of \<open>SENDER_PRIVATE_KEY\<close>,
  \<open>TOKEN_MINT_ADDRESS\<close> and \<open>RPC_URL\<close> is unset or empty, the response is 500
  \<open>Server configuration error\<close>; the run has parsed the address, read the four
  variables and written one console line, and has done nothing else.
\<close>

theorem config_error_after_validation:
  assumes "reqMethod req = ''POST''"
    and "getWalletAddress (reqBody req) = Inr wa" and "truthy wa"
    and "newPublicKey w wa = Inr rpk"
    and "absent (SENDER_PRIVATE_KEY e) \<or> absent (TOKEN_MINT_ADDRESS e) \<or> absent (RPC_URL e)"
  shows "handler w e req =
     \<lparr> final = Responded (Response 500 (ErrorBody ''Server configuration error'')),
       events = [Call (NewPublicKey wa),
                 ReadEnv ''SENDER_PRIVATE_KEY'', ReadEnv ''TOKEN_MINT_ADDRESS'',
                 ReadEnv ''RPC_URL'', ReadEnv ''TOKEN_AMOUNT'',
                 ConsoleError [LStr ''Missing environment variables'']] \<rparr>"
proof -
  have "prepare w e req =
     ([Call (NewPublicKey wa),
       ReadEnv ''SENDER_PRIVATE_KEY'', ReadEnv ''TOKEN_MINT_ADDRESS'',
       ReadEnv ''RPC_URL'', ReadEnv ''TOKEN_AMOUNT'',
       ConsoleError [LStr ''Missing environment variables'']],
      Returned (Response 500 (ErrorBody ''Server configuration error'')))"
    using assms(2-5)
    by (simp add: prepare_def validateRequest_def loadConfig_def andThen_def tryCatch_def
          perform_def respond_def emit_def)
  then show ?thesis
    using assms(1) by (simp add: handler_def tryBody_def andThen_def)
qed

theorem config_error_after_validation_witness:
  "handler demo_world (demo_env \<lparr> RPC_URL := None \<rparr>) demo_request =
     \<lparr> final = Responded (Response 500 (ErrorBody ''Server configuration error'')),
       events = [Call (NewPublicKey (JStr ''RecipientWallet'')),
                 ReadEnv ''SENDER_PRIVATE_KEY'', ReadEnv ''TOKEN_MINT_ADDRESS'',
                 ReadEnv ''RPC_URL'', ReadEnv ''TOKEN_AMOUNT'',
                 ConsoleError [LStr ''Missing environment variables'']] \<rparr>"
  by (rule config_error_after_validation[where rpk = "PublicKey ''RecipientWallet''"])
     (simp_all add: demo_defs absent_def)

text \<open>
  The claim as it is written also promises the configuration error to a request
  whose wallet address is missing or invalid. With no variable set, an address
  that the constructor rejects is answered 400 \<open>Invalid wallet address format\<close>,
  and a body without the field 400 \<open>Wallet address is required\<close>: lines 14 to 24
  return before line 27 reads the configuration.
\<close>

theorem config_error_regardless_counterexample:
  "final (handler demo_world
            \<lparr> SENDER_PRIVATE_KEY = None, TOKEN_MINT_ADDRESS = None, RPC_URL = None,
              TOKEN_AMOUNT = None \<rparr>
            \<lparr> reqMethod = ''POST'',
              reqBody = JObj [(''walletAddress'', JStr ''not-an-address'')] \<rparr>)
     = Responded (Response 400 (ErrorBody ''Invalid wallet address format''))
   \<and> final (handler demo_world
            \<lparr> SENDER_PRIVATE_KEY = None, TOKEN_MINT_ADDRESS = None, RPC_URL = None,
              TOKEN_AMOUNT = None \<rparr>
            \<lparr> reqMethod = ''POST'', reqBody = JObj [] \<rparr>)
     = Responded (Response 400 (ErrorBody ''Wallet address is required''))"
  by (simp add: run_defs demo_defs)

subsection \<open>The balance guard\<close>

text \<open>
  Claim C3. If a run has asked for the sender's balance and the answer is below the
  configured amount (line 77: \<open>uiAmount < tokenAmount\<close>), the response is 400
  \<open>insufficient_token_balance\<close> and the run contains no call of
  \<open>sendAndConfirmTransaction\<close>. Conversely, a run that contains such a call has
  asked for the balance on the same connection and got an answer that is not
  below the configured amount.
\<close>

theorem insufficient_balance_stops:
  "(\<forall>c a bal.
      Call (GetTokenAccountBalance c a) \<in> set (events (handler w e req))
      \<and> getTokenAccountBalance w c a = Inr bal \<and> insufficient bal (configuredAmount e)
      \<longrightarrow> final (handler w e req)
            = Responded (Response 400 (ErrorBody ''insufficient_token_balance''))
          \<and> (\<forall>c' t ks k. Call (SendAndConfirmTransaction c' t ks k)
                            \<notin> set (events (handler w e req))))
   \<and> (\<forall>c t ks k.
      Call (SendAndConfirmTransaction c t ks k) \<in> set (events (handler w e req))
      \<longrightarrow> (\<exists>a bal. Call (GetTokenAccountBalance c a) \<in> set (events (handler w e req))
                   \<and> getTokenAccountBalance w c a = Inr bal
                   \<and> \<not> insufficient bal (configuredAmount e)))"
proof (rule conjI)
  show "\<forall>c a bal.
      Call (GetTokenAccountBalance c a) \<in> set (events (handler w e req))
      \<and> getTokenAccountBalance w c a = Inr bal \<and> insufficient bal (configuredAmount e)
      \<longrightarrow> final (handler w e req)
            = Responded (Response 400 (ErrorBody ''insufficient_token_balance''))
          \<and> (\<forall>c' t ks k. Call (SendAndConfirmTransaction c' t ks k)
                            \<notin> set (events (handler w e req)))"
  proof (intro allI impI, elim conjE)
    fix c a bal
    assume call: "Call (GetTokenAccountBalance c a) \<in> set (events (handler w e req))"
      and bal: "getTokenAccountBalance w c a = Inr bal" "insufficient bal (configuredAmount e)"
    from call_in_handler[OF call]
    have post: "reqMethod req = ''POST''"
      and "Call (GetTokenAccountBalance c a) \<in> set (fst (tryBody w e req))"
      by simp_all
    then have "Call (GetTokenAccountBalance c a) \<in> set (fst (prepare w e req))"
      by (auto simp: tryBody_def in_fst_andThen balance_call_stages)
    from prepare_balance_call[OF this bal]
    have r: "snd (prepare w e req)
        = Returned (Response 400 (ErrorBody ''insufficient_token_balance''))" .
    then have "tryBody w e req = (fst (prepare w e req),
        Returned (Response 400 (ErrorBody ''insufficient_token_balance'')))"
      by (simp add: tryBody_def andThen_abrupt)
    then have run: "handler w e req =
        \<lparr> final = Responded (Response 400 (ErrorBody ''insufficient_token_balance'')),
          events = fst (prepare w e req) \<rparr>"
      by (simp add: handler_POST[OF post])
    show "final (handler w e req)
            = Responded (Response 400 (ErrorBody ''insufficient_token_balance''))
          \<and> (\<forall>c' t ks k. Call (SendAndConfirmTransaction c' t ks k)
                            \<notin> set (events (handler w e req)))"
      by (simp add: run prepare_no_submission)
  qed
next
  show "\<forall>c t ks k.
      Call (SendAndConfirmTransaction c t ks k) \<in> set (events (handler w e req))
      \<longrightarrow> (\<exists>a bal. Call (GetTokenAccountBalance c a) \<in> set (events (handler w e req))
                   \<and> getTokenAccountBalance w c a = Inr bal
                   \<and> \<not> insufficient bal (configuredAmount e))"
  proof (intro allI impI)
    fix c t ks k
    assume call: "Call (SendAndConfirmTransaction c t ks k) \<in> set (events (handler w e req))"
    from call_in_handler[OF call]
    have post: "reqMethod req = ''POST''"
      and "Call (SendAndConfirmTransaction c t ks k) \<in> set (fst (tryBody w e req))"
      by simp_all
    then obtain ctx tx where ctx: "snd (prepare w e req) = Normal ctx"
      and "Call (SendAndConfirmTransaction c t ks k) \<in> set (fst (submit w ctx tx))"
      by (auto simp: tryBody_def in_fst_andThen prepare_no_submission submission_stages)
    then have c: "c = conn ctx"
      by (auto simp: submit_cases split: sum.splits)
    from prepare_NormalD[OF ctx] obtain bal where
      bal: "getTokenAccountBalance w (conn ctx) (senderTokenAccount ctx) = Inr bal"
        "\<not> insufficient bal (configuredAmount e)"
      by blast
    have "Call (GetTokenAccountBalance (conn ctx) (senderTokenAccount ctx))
            \<in> set (fst (tryBody w e req))"
      using prepare_Normal_balance_call[OF ctx] by (simp add: tryBody_def in_fst_andThen)
    with tryBody_events_in_handler[OF post, of w e]
    have "Call (GetTokenAccountBalance (conn ctx) (senderTokenAccount ctx))
            \<in> set (events (handler w e req))"
      by blast
    with bal c show "\<exists>a bal. Call (GetTokenAccountBalance c a) \<in> set (events (handler w e req))
                   \<and> getTokenAccountBalance w c a = Inr bal
                   \<and> \<not> insufficient bal (configuredAmount e)"
      by blast
  qed
qed

lemma demo_poor_run:
  "handler demo_world_poor demo_env demo_request =
     \<lparr> final = Responded (Response 400 (ErrorBody ''insufficient_token_balance'')),
       events =
         [Call (NewPublicKey (JStr ''RecipientWallet'')),
          ReadEnv ''SENDER_PRIVATE_KEY'', ReadEnv ''TOKEN_MINT_ADDRESS'',
          ReadEnv ''RPC_URL'', ReadEnv ''TOKEN_AMOUNT'',
          Call (JsonParse ''[11,22,33]''),
          Call (NewUint8Array (JArr [JNum (Num 11), JNum (Num 22), JNum (Num 33)])),
          Call (FromSecretKey [11, 22, 33]),
          Call (NewConnection ''https://rpc.example'' ''confirmed''),
          Call (NewPublicKey (JStr ''DuckMint'')),
          Call (GetAssociatedTokenAddress (PublicKey ''DuckMint'') (PublicKey ''SenderWallet'')),
          Call (GetAssociatedTokenAddress (PublicKey ''DuckMint'') (PublicKey ''RecipientWallet'')),
          Call (GetTokenAccountBalance (Connection ''https://rpc.example'' ''confirmed'')
                  (PublicKey ''ATA of SenderWallet''))] \<rparr>"
  by (simp add: run_defs parseInt_defs demo_defs)

theorem insufficient_balance_stops_witness:
  "Call (GetTokenAccountBalance (Connection ''https://rpc.example'' ''confirmed'')
           (PublicKey ''ATA of SenderWallet''))
     \<in> set (events (handler demo_world_poor demo_env demo_request))
   \<and> getTokenAccountBalance demo_world_poor (Connection ''https://rpc.example'' ''confirmed'')
         (PublicKey ''ATA of SenderWallet'')
       = Inr \<lparr> amount = 1000 * 10 ^ 6, decimals = 6, uiAmount = Some (Num 1000) \<rparr>
   \<and> insufficient \<lparr> amount = 1000 * 10 ^ 6, decimals = 6, uiAmount = Some (Num 1000) \<rparr>
         (configuredAmount demo_env)
   \<and> final (handler demo_world_poor demo_env demo_request)
       = Responded (Response 400 (ErrorBody ''insufficient_token_balance''))
   \<and> Call demo_submission \<notin> set (events (handler demo_world_poor demo_env demo_request))
   \<and> Call demo_submission \<in> set (events (handler demo_world demo_env demo_request))
   \<and> \<not> insufficient \<lparr> amount = 1000000 * 10 ^ 6, decimals = 6, uiAmount = Some (Num 1000000) \<rparr>
         (configuredAmount demo_env)"
  using insufficient_balance_stops[of demo_world_poor demo_env demo_request]
  by (simp add: demo_poor_run demo_run)
     (simp add: demo_defs insufficient_def toNumber_def configuredAmount_def orDefault_def
        parseInt_defs)

subsection \<open>Exceptions and the top-level catch\<close>

lemma escapes_andThen:
  assumes "escapes ev x m" and "\<And>v. snd m = Normal v \<Longrightarrow> escapes ev x (f v)"
  shows "escapes ev x (andThen m f)"
proof (cases "snd m")
  case (Normal v)
  with assms show ?thesis
    by (auto simp: escapes_def andThen_Normal)
next
  case (Returned r)
  with assms show ?thesis by (simp add: escapes_def andThen_abrupt)
next
  case (Threw y)
  with assms show ?thesis by (simp add: escapes_def andThen_abrupt)
qed

lemma escapes_absent: "ev \<notin> set (fst m) \<Longrightarrow> escapes ev x m"
  by (simp add: escapes_def)

lemma escapes_if: "escapes ev x a \<Longrightarrow> escapes ev x b \<Longrightarrow> escapes ev x (if c then a else b)"
  by simp

lemma escapes_result: "escapes ev x (result v)"
  by (simp add: escapes_def result_def)

lemma escapes_respond: "escapes ev x (respond st b)"
  by (simp add: escapes_def respond_def)

lemma escapes_perform:
  "thrownBy w c = Some x \<Longrightarrow> thrownBy w c' = thrown r \<Longrightarrow> escapes (Call c) x (perform c' r)"
  by (cases r) (auto simp: escapes_def perform_def thrown_def)

lemma escapes_log_respond:
  "escapes (Call c) x (andThen (emit [ConsoleLog l]) (\<lambda>_. respond st b))"
  by (simp add: escapes_def andThen_def emit_def respond_def)

lemmas escapes_intros = escapes_log_respond escapes_andThen escapes_if escapes_result
  escapes_respond escapes_perform

lemma validateRequest_calls:
  "Call c \<in> set (fst (validateRequest w req)) \<Longrightarrow> innerCaught req c"
  by (auto simp: validateRequest_def andThen_def tryCatch_def perform_def respond_def
        split: sum.splits if_splits)

lemma loadConfig_calls: "Call c \<notin> set (fst (loadConfig e))"
  by (simp add: loadConfig_def comp_simps)

lemma parseSenderKey_calls:
  "Call c \<in> set (fst (parseSenderKey w key)) \<Longrightarrow> innerCaught req c"
  by (auto simp: parseSenderKey_def in_fst_andThen in_fst_tryCatch comp_simps split: if_splits)

lemma queryRecipientAccount_calls:
  "Call c \<in> set (fst (queryRecipientAccount w cn a)) \<Longrightarrow> innerCaught req c"
  by (auto simp: queryRecipientAccount_def in_fst_andThen in_fst_tryCatch comp_simps)

lemma escapes_stages:
  assumes "thrownBy w c = Some x" and "\<not> innerCaught req c"
  shows "escapes (Call c) x (validateRequest w req)"
    and "escapes (Call c) x (loadConfig e)"
    and "escapes (Call c) x (parseSenderKey w key)"
    and "escapes (Call c) x (connect w cfg kp rpk)"
    and "escapes (Call c) x (checkBalance w cn a amt)"
    and "escapes (Call c) x (queryRecipientAccount w cn a)"
    and "escapes (Call c) x (assemble w ctx)"
    and "escapes (Call c) x (submit w ctx t)"
proof -
  show "escapes (Call c) x (validateRequest w req)"
    using assms(2) validateRequest_calls by (blast intro: escapes_absent)
  show "escapes (Call c) x (loadConfig e)"
    by (rule escapes_absent) (rule loadConfig_calls)
  show "escapes (Call c) x (parseSenderKey w key)"
    using assms(2) parseSenderKey_calls by (blast intro: escapes_absent)
  show "escapes (Call c) x (queryRecipientAccount w cn a)"
    using assms(2) queryRecipientAccount_calls by (blast intro: escapes_absent)
  show "escapes (Call c) x (connect w cfg kp rpk)"
    unfolding connect_def by (intro escapes_intros; simp add: assms(1))
  show "escapes (Call c) x (checkBalance w cn a amt)"
    unfolding checkBalance_def by (intro escapes_intros; simp add: assms(1))
  show "escapes (Call c) x (assemble w ctx)"
    unfolding assemble_def by (intro escapes_intros; simp add: assms(1))
  show "escapes (Call c) x (submit w ctx t)"
    unfolding submit_def by (intro escapes_intros; simp add: assms(1))
qed

lemma escapes_tryBody:
  assumes "thrownBy w c = Some x" and "\<not> innerCaught req c"
  shows "escapes (Call c) x (tryBody w e req)"
  unfolding tryBody_def prepare_def
  by (intro escapes_andThen escapes_result escapes_stages[OF assms])

text \<open>
  Claim C4, as the code has it. Take a call of the run that stands outside the
  three inner \<open>try\<close> blocks (the connection, the mint address, the two token
  account addresses, the balance query, the two instructions, the block hash, the
  submission) and that throws a value whose \<open>message\<close> is the string \<open>m\<close>. Then
  the run ends in the top-level \<open>catch\<close>: the error is logged after
  \<open>Airdrop error:\<close>, and the response is 400 \<open>already_claimed_or_has_balance\<close>
  if \<open>m\<close> includes \<open>already in use\<close>, and otherwise 500 with \<open>m\<close>, or with
  \<open>Internal server error during airdrop\<close> when \<open>m\<close> is the empty string.
\<close>

theorem uncaught_exception_response:
  assumes "Call c \<in> set (events (handler w e req))"
    and "thrownBy w c = Some (ErrorMsg m)"
    and "\<not> innerCaught req c"
  shows "handler w e req =
     \<lparr> final = Responded
         (if str_includes m ''already in use''
          then Response 400 (ErrorBody ''already_claimed_or_has_balance'')
          else Response 500
                 (ErrorBody (if m = [] then ''Internal server error during airdrop'' else m))),
       events = fst (tryBody w e req) @ [ConsoleError [LStr ''Airdrop error:'', LErr (ErrorMsg m)]] \<rparr>"
proof -
  from call_in_handler[OF assms(1)]
  have post: "reqMethod req = ''POST''" and "Call c \<in> set (fst (tryBody w e req))"
    by simp_all
  with escapes_tryBody[OF assms(2,3), of e]
  have "snd (tryBody w e req) = Threw (ErrorMsg m)"
    by (simp add: escapes_def)
  then show ?thesis
    by (simp add: handler_POST[OF post] topLevelCatch_def)
qed

theorem uncaught_exception_response_witness:
  "Call demo_submission \<in> set (events (handler demo_world_racing demo_env demo_request))
   \<and> thrownBy demo_world_racing demo_submission
       = Some (ErrorMsg ''Transaction simulation failed: Allocate: account already in use'')
   \<and> \<not> innerCaught demo_request demo_submission
   \<and> final (handler demo_world_racing demo_env demo_request)
       = Responded (Response 400 (ErrorBody ''already_claimed_or_has_balance''))
   \<and> last (events (handler demo_world_racing demo_env demo_request))
       = ConsoleError [LStr ''Airdrop error:'',
           LErr (ErrorMsg ''Transaction simulation failed: Allocate: account already in use'')]"
proof -
  have h1: "Call demo_submission \<in> set (events (handler demo_world_racing demo_env demo_request))"
    by (simp add: run_defs parseInt_defs demo_defs)
  have h2: "thrownBy demo_world_racing demo_submission
       = Some (ErrorMsg ''Transaction simulation failed: Allocate: account already in use'')"
    by (simp add: demo_defs thrown_def)
  have h3: "\<not> innerCaught demo_request demo_submission"
    by (simp add: demo_submission_def)
  from uncaught_exception_response[OF h1 h2 h3] h1 h2 h3 show ?thesis
    by simp
qed

text \<open>
  The claim as it is written speaks of every exception between the configuration
  load and the submission. Two of them never reach the top-level \<open>catch\<close>. A
  credential that \<open>JSON.parse\<close> rejects is answered by the \<open>catch\<close> of line 52
  with the fixed body \<open>Invalid sender private key format\<close>, not with the message
  of the error; and a failed account query is logged by the \<open>catch\<close> of line 85,
  after which the run goes on, here to a 200 response.
\<close>

theorem inner_catch_counterexample:
  "jsonParse demo_world ''[11,22,x]'' = Inl (ErrorMsg demo_parse_error)
   \<and> final (handler demo_world demo_env_bad_key demo_request)
       = Responded (Response 500 (ErrorBody ''Invalid sender private key format''))
   \<and> getAccountInfo demo_world_flaky (Connection ''https://rpc.example'' ''confirmed'')
         (PublicKey ''ATA of RecipientWallet'')
       = Inl (ErrorMsg ''fetch failed'')
   \<and> final (handler demo_world_flaky demo_env demo_request)
       = Responded (Response 200
           (SuccessBody ''Signature1'' (Num 25000)
              [Lit ''Successfully airdropped '', Interp (Num 25000), Lit '' DUCK tokens'']))"
  by (simp add: run_defs parseInt_defs demo_defs)

subsection \<open>The assembled transaction\<close>



subsection \<open>The wallet address\<close>

text \<open>
  Claim C6, as the code has it. For a POST request whose \<open>walletAddress\<close> is a
  string that the \<open>PublicKey\<close> constructor rejects, the response is 400. If the
  string is not empty the body is \<open>Invalid wallet address format\<close> and the run
  consists of the one call of the constructor: no variable is read, nothing is
  asked of the chain, nothing is submitted. The empty string is rejected one
  step earlier, by line 14, with the body \<open>Wallet address is required\<close> and no
  call at all.
\<close>

theorem invalid_address_rejected:
  assumes "reqMethod req = ''POST''"
    and "getWalletAddress (reqBody req) = Inr (JStr s)"
    and "newPublicKey w (JStr s) = Inl err"
  shows "handler w e req =
     (if s = []
      then \<lparr> final = Responded (Response 400 (ErrorBody ''Wallet address is required'')),
             events = [] \<rparr>
      else \<lparr> final = Responded (Response 400 (ErrorBody ''Invalid wallet address format'')),
             events = [Call (NewPublicKey (JStr s))] \<rparr>)"
  using assms
  by (simp add: handler_def tryBody_def prepare_def validateRequest_def andThen_def tryCatch_def
        perform_def respond_def)

theorem invalid_address_rejected_witness:
  "handler demo_world demo_env
     \<lparr> reqMethod = ''POST'', reqBody = JObj [(''walletAddress'', JStr ''not-an-address'')] \<rparr>
   = \<lparr> final = Responded (Response 400 (ErrorBody ''Invalid wallet address format'')),
       events = [Call (NewPublicKey (JStr ''not-an-address''))] \<rparr>"
  using invalid_address_rejected[of
      "\<lparr> reqMethod = ''POST'', reqBody = JObj [(''walletAddress'', JStr ''not-an-address'')] \<rparr>"
      "''not-an-address''" demo_world "ErrorMsg ''Invalid public key input''" demo_env]
  by (simp add: demo_defs)

text \<open>
  The claim as it is written gives the body \<open>Invalid wallet address format\<close> to
  every string that fails to parse. The empty string fails to parse, and is
  answered \<open>Wallet address is required\<close>.
\<close>

theorem empty_address_counterexample:
  "newPublicKey demo_world (JStr '''') = Inl (ErrorMsg ''Invalid public key input'')
   \<and> final (handler demo_world demo_env
        \<lparr> reqMethod = ''POST'', reqBody = JObj [(''walletAddress'', JStr '''')] \<rparr>)
     = Responded (Response 400 (ErrorBody ''Wallet address is required''))"
  by (simp add: run_defs demo_defs)

subsection \<open>The sender's key\<close>

text \<open>
  Claim C7. The block of lines 39 to 55 begins with \<open>JSON.parse\<close> of the credential
  when the credential starts with \<open>[\<close>, and with the base58 decoder otherwise, and
  never calls the other one. It yields a keypair exactly when the decoder, the
  typed array and \<open>Keypair.fromSecretKey\<close> all return, the bytes going from one to
  the next. If any call of the block throws (a malformed array, a character that
  is not base58, a secret key of the wrong size), the block logs the error and
  returns 500 \<open>Invalid sender private key format\<close>. For a POST request with an
  accepted wallet address and a configuration whose three required values are
  present, what the block returns is the response of the handler.
\<close>

theorem sender_key_decoding:
  "(\<exists>rest. fst (parseSenderKey w key)
              = Call (if startsWith key ''['' then JsonParse key else Bs58Decode key) # rest)
   \<and> (\<forall>s. Call (if startsWith key ''['' then Bs58Decode s else JsonParse s)
              \<notin> set (fst (parseSenderKey w key)))
   \<and> (\<forall>kp. snd (parseSenderKey w key) = Normal kp \<longleftrightarrow>
          (\<exists>arr bytes.
             (if startsWith key ''['' then jsonParse w key = Inr arr
              else (\<exists>bs. bs58decode w key = Inr bs \<and> arr = arrayFrom bs))
             \<and> newUint8Array w arr = Inr bytes \<and> fromSecretKey w bytes = Inr kp))
   \<and> (\<forall>c x. Call c \<in> set (fst (parseSenderKey w key)) \<and> thrownBy w c = Some x \<longrightarrow>
          snd (parseSenderKey w key)
            = Returned (Response 500 (ErrorBody ''Invalid sender private key format''))
          \<and> last (fst (parseSenderKey w key))
              = ConsoleError [LStr ''Error parsing private key:'', LErr x])
   \<and> (\<forall>rpk r.
          reqMethod req = ''POST'' \<and> snd (validateRequest w req) = Normal rpk
          \<and> SENDER_PRIVATE_KEY e = Some key \<and> key \<noteq> []
          \<and> \<not> absent (TOKEN_MINT_ADDRESS e) \<and> \<not> absent (RPC_URL e)
          \<and> snd (parseSenderKey w key) = Returned r
          \<longrightarrow> final (handler w e req) = Responded r)"
proof (intro conjI)
  show "\<exists>rest. fst (parseSenderKey w key)
              = Call (if startsWith key ''['' then JsonParse key else Bs58Decode key) # rest"
    by (cases "startsWith key ''[''")
       (simp_all add: parseSenderKey_json parseSenderKey_bs58 split: sum.splits)
  show "\<forall>s. Call (if startsWith key ''['' then Bs58Decode s else JsonParse s)
              \<notin> set (fst (parseSenderKey w key))"
    by (cases "startsWith key ''[''")
       (simp_all add: parseSenderKey_json parseSenderKey_bs58 split: sum.splits)
  show "\<forall>kp. snd (parseSenderKey w key) = Normal kp \<longleftrightarrow>
          (\<exists>arr bytes.
             (if startsWith key ''['' then jsonParse w key = Inr arr
              else (\<exists>bs. bs58decode w key = Inr bs \<and> arr = arrayFrom bs))
             \<and> newUint8Array w arr = Inr bytes \<and> fromSecretKey w bytes = Inr kp)"
    by (cases "startsWith key ''[''")
       (auto simp: parseSenderKey_json parseSenderKey_bs58 split: sum.splits)
  show "\<forall>c x. Call c \<in> set (fst (parseSenderKey w key)) \<and> thrownBy w c = Some x \<longrightarrow>
          snd (parseSenderKey w key)
            = Returned (Response 500 (ErrorBody ''Invalid sender private key format''))
          \<and> last (fst (parseSenderKey w key))
              = ConsoleError [LStr ''Error parsing private key:'', LErr x]"
    by (cases "startsWith key ''[''")
       (auto simp: parseSenderKey_json parseSenderKey_bs58 thrown_def split: sum.splits)
  show "\<forall>rpk r.
          reqMethod req = ''POST'' \<and> snd (validateRequest w req) = Normal rpk
          \<and> SENDER_PRIVATE_KEY e = Some key \<and> key \<noteq> []
          \<and> \<not> absent (TOKEN_MINT_ADDRESS e) \<and> \<not> absent (RPC_URL e)
          \<and> snd (parseSenderKey w key) = Returned r
          \<longrightarrow> final (handler w e req) = Responded r"
    using handler_key_failure[of req w _ e key] by auto
qed

theorem sender_key_decoding_witness:
  "fst (parseSenderKey demo_world ''[11,22]'')
     = [Call (JsonParse ''[11,22]''), Call (NewUint8Array (JArr [JNum (Num 11), JNum (Num 22)])),
        Call (FromSecretKey [11, 22]),
        ConsoleError [LStr ''Error parsing private key:'', LErr (ErrorMsg ''bad secret key size'')]]
   \<and> thrownBy demo_world (FromSecretKey [11, 22]) = Some (ErrorMsg ''bad secret key size'')
   \<and> final (handler demo_world (demo_env \<lparr> SENDER_PRIVATE_KEY := Some ''[11,22]'' \<rparr>) demo_request)
       = Responded (Response 500 (ErrorBody ''Invalid sender private key format''))
   \<and> fst (parseSenderKey demo_world ''4iyv'')
       = [Call (Bs58Decode ''4iyv''),
          Call (NewUint8Array (JArr [JNum (Num 11), JNum (Num 22), JNum (Num 33)])),
          Call (FromSecretKey [11, 22, 33])]
   \<and> snd (parseSenderKey demo_world ''4iyv'') = Normal (Keypair (PublicKey ''SenderWallet'') [11, 22, 33])"
  using sender_key_decoding[of demo_world "''[11,22]''" demo_request
          "demo_env \<lparr> SENDER_PRIVATE_KEY := Some ''[11,22]'' \<rparr>"]
  by (simp add: run_defs demo_defs thrown_def)

subsection \<open>What reaches the response and the console\<close>

lemma accounted_for_mono:
  "accounted_for w req evs s \<Longrightarrow> set evs \<subseteq> set evs' \<Longrightarrow> accounted_for w req evs' s"
  unfolding accounted_for_def by blast

lemma accounted_for_literal:
  "s \<in> set handler_literals \<Longrightarrow> accounted_for w req evs s"
  by (simp add: accounted_for_def)

lemma literal_mem:
  "''Method not allowed'' \<in> set handler_literals"
  "''Wallet address is required'' \<in> set handler_literals"
  "''Invalid wallet address format'' \<in> set handler_literals"
  "''Missing environment variables'' \<in> set handler_literals"
  "''Server configuration error'' \<in> set handler_literals"
  "''Error parsing private key:'' \<in> set handler_literals"
  "''Invalid sender private key format'' \<in> set handler_literals"
  "''insufficient_token_balance'' \<in> set handler_literals"
  "''Error checking recipient token account:'' \<in> set handler_literals"
  "''Successfully airdropped '' \<in> set handler_literals"
  "'' DUCK tokens'' \<in> set handler_literals"
  "''Airdrop error:'' \<in> set handler_literals"
  "''already_claimed_or_has_balance'' \<in> set handler_literals"
  "''Internal server error during airdrop'' \<in> set handler_literals"
  by (simp_all add: handler_literals_def)

lemma logarg_texts_LErr:
  "logarg_texts (LErr x) = (case x of ErrorMsg m \<Rightarrow> [m] | NoMsg \<Rightarrow> [])"
  by (cases x) simp_all

lemma texts_accounted_append:
  assumes m: "texts_accounted w req (evs1, Normal v)"
    and k: "texts_accounted w req (evs2, c)"
  shows "texts_accounted w req (evs1 @ evs2, c)"
proof -
  have up: "accounted_for w req (evs1 @ evs2) s"
    if "accounted_for w req evs1 s \<or> accounted_for w req evs2 s" for s
    using that by (auto intro: accounted_for_mono)
  from m k show ?thesis
    unfolding texts_accounted_def
    apply (intro conjI)
      apply simp apply (blast intro: up)
     apply simp apply blast
    apply simp apply (blast intro: up)
    done
qed

lemma texts_accounted_andThen:
  assumes m: "texts_accounted w req m"
    and f: "\<And>x. snd m = Normal x \<Longrightarrow> texts_accounted w req (f x)"
  shows "texts_accounted w req (andThen m f)"
proof (cases "snd m")
  case (Normal x)
  have "texts_accounted w req (fst m, Normal x)"
    using m Normal by (simp add: texts_accounted_def)
  moreover have "texts_accounted w req (fst (f x), snd (f x))"
    using f[OF Normal] by simp
  ultimately show ?thesis
    using texts_accounted_append andThen_Normal[OF Normal] by metis
next
  case (Returned r)
  with m show ?thesis by (simp add: texts_accounted_def andThen_abrupt)
next
  case (Threw x)
  with m show ?thesis by (simp add: texts_accounted_def andThen_abrupt)
qed

lemma texts_accounted_if:
  "texts_accounted w req a \<Longrightarrow> texts_accounted w req b \<Longrightarrow>
   texts_accounted w req (if c then a else b)"
  by simp

lemma texts_accounted_result: "texts_accounted w req (result x)"
  by (simp add: texts_accounted_def result_def)

lemma texts_accounted_respond:
  "s \<in> set handler_literals \<Longrightarrow> texts_accounted w req (respond st (ErrorBody s))"
  by (simp add: texts_accounted_def respond_def accounted_for_literal)

lemma texts_accounted_emit:
  "\<forall>ev \<in> set evs. \<forall>s \<in> set (event_texts ev). s \<in> set handler_literals \<Longrightarrow>
   texts_accounted w req (emit evs)"
  by (simp add: texts_accounted_def emit_def accounted_for_literal)

lemma texts_accounted_perform:
  "thrownBy w c = thrown r \<Longrightarrow> texts_accounted w req (perform c r)"
  by (cases r) (simp_all add: texts_accounted_def perform_def thrown_def)

lemma texts_accounted_destructure:
  "texts_accounted w req
     ([], case getWalletAddress (reqBody req) of Inl e \<Rightarrow> Threw e | Inr v \<Rightarrow> Normal v)"
  by (simp add: texts_accounted_def split: sum.splits)

lemma texts_accounted_logged:
  assumes m: "texts_accounted w req m" and x: "snd m = Threw x"
    and lit: "lit \<in> set handler_literals"
  shows "texts_accounted w req (fst m @ [ConsoleError [LStr lit, LErr x]], Normal ())"
proof -
  have thrown: "accounted_for w req (fst m) s" if "x = ErrorMsg s" for s
    using m x that unfolding texts_accounted_def accounted_for_def by blast
  have up: "accounted_for w req (fst m @ [ConsoleError [LStr lit, LErr x]]) s"
    if "accounted_for w req (fst m) s" for s
    using that by (auto intro: accounted_for_mono)
  show ?thesis
    using m lit thrown up
    unfolding texts_accounted_def
    by (auto simp: logarg_texts_LErr accounted_for_literal split: exn.splits)
qed

lemma texts_accounted_tryCatch_log:
  assumes m: "texts_accounted w req m"
    and lit: "lit \<in> set handler_literals"
    and k: "texts_accounted w req k"
  shows "texts_accounted w req
           (tryCatch m (\<lambda>error. andThen (emit [ConsoleError [LStr lit, LErr error]]) (\<lambda>_. k)))"
proof (cases "snd m")
  case (Threw x)
  have eq: "tryCatch m (\<lambda>error. andThen (emit [ConsoleError [LStr lit, LErr error]]) (\<lambda>_. k))
        = ((fst m @ [ConsoleError [LStr lit, LErr x]]) @ fst k, snd k)"
    by (cases k) (simp add: tryCatch_Threw[OF Threw] andThen_def emit_def)
  show ?thesis
    unfolding eq
    by (rule texts_accounted_append[OF texts_accounted_logged[OF m Threw lit]]) (simp add: k)
next
  case (Normal v)
  with m show ?thesis by (simp add: texts_accounted_def tryCatch_other)
next
  case (Returned r)
  with m show ?thesis by (simp add: texts_accounted_def tryCatch_other)
qed

lemma texts_accounted_tryCatch_const:
  assumes m: "texts_accounted w req m" and k: "texts_accounted w req k"
  shows "texts_accounted w req (tryCatch m (\<lambda>error. k))"
proof (cases "snd m")
  case (Threw x)
  have "texts_accounted w req (fst m, Normal ())"
    using m by (simp add: texts_accounted_def)
  from texts_accounted_append[OF this, of "fst k" "snd k"] k show ?thesis
    by (simp add: tryCatch_Threw[OF Threw])
next
  case (Normal v)
  with m show ?thesis by (simp add: texts_accounted_def tryCatch_other)
next
  case (Returned r)
  with m show ?thesis by (simp add: texts_accounted_def tryCatch_other)
qed

lemma texts_accounted_send:
  "texts_accounted w req
     (andThen (perform (SendAndConfirmTransaction c t ks k) (sendAndConfirmTransaction w c t ks k))
        (\<lambda>signature.
           andThen (emit [ConsoleLog [LStr (''Airdrop successful: '' @ signature)]])
             (\<lambda>_. respond 200
                    (SuccessBody signature amt
                       [Lit ''Successfully airdropped '', Interp amt, Lit '' DUCK tokens'']))))"
proof (cases "sendAndConfirmTransaction w c t ks k")
  case (Inl x)
  then show ?thesis
    by (simp add: texts_accounted_def andThen_def perform_def thrown_def)
next
  case (Inr sig)
  have acc: "accounted_for w req
      [Call (SendAndConfirmTransaction c t ks k), ConsoleLog [LStr (''Airdrop successful: '' @ sig)]] s"
    if "s = sig \<or> s = ''Airdrop successful: '' @ sig" for s
    unfolding accounted_for_def using Inr that by auto
  show ?thesis
    using Inr acc
    by (simp add: texts_accounted_def andThen_def perform_def emit_def respond_def
          accounted_for_literal literal_mem)
qed

lemmas texts_accounted_intros = texts_accounted_send texts_accounted_andThen texts_accounted_if
  texts_accounted_result texts_accounted_respond texts_accounted_emit texts_accounted_perform
  texts_accounted_destructure texts_accounted_tryCatch_log texts_accounted_tryCatch_const

lemma texts_accounted_stages:
  "texts_accounted w req (validateRequest w req)"
  "texts_accounted w req (loadConfig e)"
  "texts_accounted w req (parseSenderKey w key)"
  "texts_accounted w req (connect w cfg kp rpk)"
  "texts_accounted w req (checkBalance w c a amt)"
  "texts_accounted w req (queryRecipientAccount w c a)"
  "texts_accounted w req (assemble w ctx)"
  "texts_accounted w req (submit w ctx t)"
  unfolding validateRequest_def loadConfig_def parseSenderKey_def connect_def checkBalance_def
    queryRecipientAccount_def assemble_def submit_def
  by (intro texts_accounted_intros; simp add: literal_mem)+

lemma texts_accounted_tryBody: "texts_accounted w req (tryBody w e req)"
  unfolding tryBody_def prepare_def
  by (intro texts_accounted_andThen texts_accounted_result texts_accounted_stages)

text \<open>
  Claim C8, as the code has it. The handler never copies the credential: every
  string it writes to the response body or to the console is a literal of the
  source, the message of an error that a call of the run threw (or of the
  TypeError of line 11), or the signature that the submission returned, alone or
  after \<open>Airdrop successful: \<close>. What such a message or signature holds is the
  collaborators' affair; the handler passes it on, to the console from the three
  \<open>catch\<close> blocks that log and to the response from the top-level one.
\<close>

theorem written_text_provenance:
  assumes "s \<in> set (written (handler w e req))"
  shows "s \<in> set handler_literals
     \<or> (\<exists>c. Call c \<in> set (events (handler w e req)) \<and> thrownBy w c = Some (ErrorMsg s))
     \<or> getWalletAddress (reqBody req) = Inl (ErrorMsg s)
     \<or> (\<exists>c t ks k sig.
           Call (SendAndConfirmTransaction c t ks k) \<in> set (events (handler w e req))
           \<and> sendAndConfirmTransaction w c t ks k = Inr sig
           \<and> (s = sig \<or> s = ''Airdrop successful: '' @ sig))"
proof (cases "reqMethod req = ''POST''")
  case False
  with assms show ?thesis
    by (simp add: handler_not_POST written_def literal_mem)
next
  case True
  note ta = texts_accounted_tryBody[of w req e, unfolded texts_accounted_def]
  have logs: "accounted_for w req (fst (tryBody w e req)) t"
    if "ev \<in> set (fst (tryBody w e req))" "t \<in> set (event_texts ev)" for ev t
    using ta that by blast
  have "accounted_for w req (events (handler w e req)) s"
  proof (cases "snd (tryBody w e req)")
    case (Normal u)
    with assms True logs show ?thesis
      by (auto simp: handler_POST written_def)
  next
    case (Returned r)
    with assms True logs ta show ?thesis
      by (auto simp: handler_POST written_def)
  next
    case (Threw x)
    have ev: "events (handler w e req)
        = fst (tryBody w e req) @ [ConsoleError [LStr ''Airdrop error:'', LErr x]]"
      and fin: "final (handler w e req) = topLevelCatch x"
      using True Threw by (simp_all add: handler_POST)
    have msg: "accounted_for w req (fst (tryBody w e req)) m" if "x = ErrorMsg m" for m
      using ta Threw that unfolding accounted_for_def by blast
    from assms consider
        (resp) "s \<in> set (final_texts (topLevelCatch x))"
      | (log) ev where "ev \<in> set (fst (tryBody w e req))" "s \<in> set (event_texts ev)"
      | (last) "s \<in> set (event_texts (ConsoleError [LStr ''Airdrop error:'', LErr x]))"
      unfolding written_def ev fin by auto
    then have "accounted_for w req (fst (tryBody w e req)) s"
    proof cases
      case resp
      then show ?thesis
        using msg
        by (auto simp: topLevelCatch_def accounted_for_literal literal_mem
              split: exn.splits if_splits)
    next
      case log
      then show ?thesis by (rule logs)
    next
      case last
      then show ?thesis
        using msg
        by (auto simp: logarg_texts_LErr accounted_for_literal literal_mem split: exn.splits)
    qed
    then show ?thesis
      unfolding ev by (rule accounted_for_mono) auto
  qed
  then show ?thesis
    unfolding accounted_for_def .
qed

lemma demo_bad_key_run:
  "handler demo_world demo_env_bad_key demo_request =
     \<lparr> final = Responded (Response 500 (ErrorBody ''Invalid sender private key format'')),
       events =
         [Call (NewPublicKey (JStr ''RecipientWallet'')),
          ReadEnv ''SENDER_PRIVATE_KEY'', ReadEnv ''TOKEN_MINT_ADDRESS'',
          ReadEnv ''RPC_URL'', ReadEnv ''TOKEN_AMOUNT'',
          Call (JsonParse ''[11,22,x]''),
          ConsoleError [LStr ''Error parsing private key:'', LErr (ErrorMsg demo_parse_error)]] \<rparr>"
  by (simp add: run_defs parseInt_defs demo_defs)

theorem written_text_provenance_witness:
  "demo_parse_error \<in> set (written (handler demo_world demo_env_bad_key demo_request))
   \<and> demo_parse_error \<notin> set handler_literals
   \<and> Call (JsonParse ''[11,22,x]'')
       \<in> set (events (handler demo_world demo_env_bad_key demo_request))
   \<and> thrownBy demo_world (JsonParse ''[11,22,x]'') = Some (ErrorMsg demo_parse_error)"
  using written_text_provenance[of demo_parse_error demo_world demo_env_bad_key demo_request]
  by (simp add: demo_bad_key_run written_def)
     (simp add: demo_defs thrown_def handler_literals_def)

text \<open>
  The claim as it is written lets no key material into the console. Line 53 logs
  the error that the parsing of the credential threw, and the \<open>JSON.parse\<close> of
  this world, like V8's, quotes its input there: with the credential
  \<open>[11,22,x]\<close> the console line after \<open>Error parsing private key:\<close> holds the
  credential. The response of that run is the fixed body.
\<close>

theorem credential_logged_counterexample:
  "SENDER_PRIVATE_KEY demo_env_bad_key = Some ''[11,22,x]''
   \<and> ConsoleError [LStr ''Error parsing private key:'', LErr (ErrorMsg demo_parse_error)]
       \<in> set (events (handler demo_world demo_env_bad_key demo_request))
   \<and> demo_parse_error \<in> set (written (handler demo_world demo_env_bad_key demo_request))
   \<and> str_includes demo_parse_error ''[11,22,x]''"
  by (simp add: demo_bad_key_run written_def)
     (simp add: demo_defs)

subsection \<open>The guard and the debit are in different units\<close>

text \<open>
  Claim C9. There is a run in which the sender's balance, as the chain reports
  it (\<open>uiAmount\<close> being \<open>amount\<close> divided by \<open>10 ^ decimals\<close>), passes the
  guard of line 77, and in which the amount given to \<open>createTransferInstruction\<close>
  for the sender's token account is larger than that balance in base units: one
  million tokens of a mint with six decimals are \<open>10 ^ 12\<close> base units, the guard
  compares 1000000 with 25000, and the instruction asks for \<open>25000 * 10 ^ 9\<close>.
\<close>

theorem guard_passes_but_balance_short:
  "\<exists>w e req c a bal d owner x.
      Call (GetTokenAccountBalance c a) \<in> set (events (handler w e req))
      \<and> getTokenAccountBalance w c a = Inr bal
      \<and> uiAmount bal = Some (Num (of_nat (amount bal) / 10 ^ decimals bal))
      \<and> \<not> insufficient bal (configuredAmount e)
      \<and> Call (CreateTransferInstruction a d owner (Num x)) \<in> set (events (handler w e req))
      \<and> of_nat (amount bal) < x"
proof -
  have "Call (GetTokenAccountBalance (Connection ''https://rpc.example'' ''confirmed'')
                (PublicKey ''ATA of SenderWallet''))
          \<in> set (events (handler demo_world demo_env demo_request))
      \<and> getTokenAccountBalance demo_world (Connection ''https://rpc.example'' ''confirmed'')
            (PublicKey ''ATA of SenderWallet'')
          = Inr \<lparr> amount = 1000000 * 10 ^ 6, decimals = 6, uiAmount = Some (Num 1000000) \<rparr>
      \<and> uiAmount \<lparr> amount = 1000000 * 10 ^ 6, decimals = 6, uiAmount = Some (Num 1000000) \<rparr>
          = Some (Num (of_nat (amount \<lparr> amount = 1000000 * 10 ^ 6, decimals = 6,
                                        uiAmount = Some (Num 1000000) \<rparr>)
                       / 10 ^ decimals \<lparr> amount = 1000000 * 10 ^ 6, decimals = 6,
                                          uiAmount = Some (Num 1000000) \<rparr>))
      \<and> \<not> insufficient \<lparr> amount = 1000000 * 10 ^ 6, decimals = 6, uiAmount = Some (Num 1000000) \<rparr>
            (configuredAmount demo_env)
      \<and> Call (CreateTransferInstruction (PublicKey ''ATA of SenderWallet'')
                (PublicKey ''ATA of RecipientWallet'') (PublicKey ''SenderWallet'')
                (Num 25000000000000))
          \<in> set (events (handler demo_world demo_env demo_request))
      \<and> of_nat (amount \<lparr> amount = 1000000 * 10 ^ 6, decimals = 6,
                           uiAmount = Some (Num 1000000) \<rparr>) < (25000000000000 :: rat)"
    by (simp add: demo_run)
       (simp add: demo_defs insufficient_def toNumber_def configuredAmount_def orDefault_def
          parseInt_defs)
  then show ?thesis by blast
qed

subsection \<open>An amount that is not a number\<close>

text \<open>
  Claim C10, as the code has it. Let \<open>TOKEN_AMOUNT\<close> be a string that is not empty
  and on which \<open>parseInt\<close> gives \<open>NaN\<close>. Then the configured amount is \<open>NaN\<close>; the
  configuration, when its three required values are present, loads without an
  error and carries \<open>NaN\<close>; no balance is below it, so that the response is never
  400 \<open>insufficient_token_balance\<close>; and a 200 response reports the amount \<open>NaN\<close>,
  in the field and in the message.
\<close>

theorem unparsable_amount_is_NaN:
  assumes "TOKEN_AMOUNT e = Some s" and "s \<noteq> []" and "parseInt s = NaN"
  shows "configuredAmount e = NaN
     \<and> (\<not> absent (SENDER_PRIVATE_KEY e) \<and> \<not> absent (TOKEN_MINT_ADDRESS e) \<and> \<not> absent (RPC_URL e)
          \<longrightarrow> (\<exists>cfg. snd (loadConfig e) = Normal cfg \<and> tokenAmount cfg = NaN))
     \<and> (\<forall>bal. \<not> insufficient bal (configuredAmount e))
     \<and> final (handler w e req) \<noteq> Responded (Response 400 (ErrorBody ''insufficient_token_balance''))
     \<and> (\<forall>body. final (handler w e req) = Responded (Response 200 body) \<longrightarrow>
           (\<exists>sig. body = SuccessBody sig NaN
                    [Lit ''Successfully airdropped '', Interp NaN, Lit '' DUCK tokens'']))"
proof -
  have nan: "configuredAmount e = NaN"
    using assms by (simp add: configuredAmount_def orDefault_def)
  have guard: "\<not> insufficient bal (configuredAmount e)" for bal
    by (cases "toNumber (uiAmount bal)") (simp_all add: nan insufficient_def)
  show ?thesis
    using nan guard handler_insufficient[of w e req] handler_success[of w e req]
    by (auto simp: loadConfig_Normal)
qed

theorem unparsable_amount_is_NaN_witness:
  "TOKEN_AMOUNT (demo_env \<lparr> TOKEN_AMOUNT := Some ''abc'' \<rparr>) = Some ''abc'' \<and> ''abc'' \<noteq> []
   \<and> parseInt ''abc'' = NaN
   \<and> configuredAmount (demo_env \<lparr> TOKEN_AMOUNT := Some ''abc'' \<rparr>) = NaN
   \<and> final (handler demo_world (demo_env \<lparr> TOKEN_AMOUNT := Some ''abc'' \<rparr>) demo_request)
       = Responded (Response 200
           (SuccessBody ''Signature1'' NaN
              [Lit ''Successfully airdropped '', Interp NaN, Lit '' DUCK tokens'']))"
proof -
  have p: "parseInt ''abc'' = NaN"
    by (simp add: parseInt_defs)
  have h: "TOKEN_AMOUNT (demo_env \<lparr> TOKEN_AMOUNT := Some ''abc'' \<rparr>) = Some ''abc''" "''abc'' \<noteq> []"
    by simp_all
  have run: "final (handler demo_world (demo_env \<lparr> TOKEN_AMOUNT := Some ''abc'' \<rparr>) demo_request)
       = Responded (Response 200
           (SuccessBody ''Signature1'' NaN
              [Lit ''Successfully airdropped '', Interp NaN, Lit '' DUCK tokens'']))"
    by (simp add: run_defs parseInt_defs demo_defs)
  from unparsable_amount_is_NaN[OF h p, of demo_world demo_request] h p run
  show ?thesis by simp
qed

text \<open>
  The claim as it is written takes every string that does not parse. The empty
  string does not parse, but line 30 replaces it by \<open>'25000'\<close> before parsing:
  the amount is 25000, and so is the amount of the 200 response.
\<close>

theorem empty_amount_counterexample:
  "TOKEN_AMOUNT (demo_env \<lparr> TOKEN_AMOUNT := Some '''' \<rparr>) = Some ''''
   \<and> parseInt '''' = NaN
   \<and> configuredAmount (demo_env \<lparr> TOKEN_AMOUNT := Some '''' \<rparr>) = Num 25000
   \<and> final (handler demo_world (demo_env \<lparr> TOKEN_AMOUNT := Some '''' \<rparr>) demo_request)
       = Responded (Response 200
           (SuccessBody ''Signature1'' (Num 25000)
              [Lit ''Successfully airdropped '', Interp (Num 25000), Lit '' DUCK tokens'']))"
  by (simp add: run_defs parseInt_defs demo_defs)

end
